theory Spec2Isabelle
  imports Complex_Main "HOL-Library.AList"
begin

section \<open>Python building blocks\<close>

text \<open>
  The substring test \<^verbatim>\<open>sub in s\<close> of Python strings: \<open>sub\<close> occurs at the front of
  \<open>s\<close> or somewhere in its tail.
\<close>

fun py_in :: "string \<Rightarrow> string \<Rightarrow> bool" where
  "py_in sub [] = (sub = [])"
| "py_in sub (c # cs) = (take (length sub) (c # cs) = sub \<or> py_in sub cs)"

definition digit_char :: "int \<Rightarrow> char" where
  "digit_char d = ''0123456789'' ! nat d"

text \<open>\<^verbatim>\<open>str(n)\<close> for an integer \<open>n \<ge> 0\<close>: its decimal digits.\<close>

function str_nat :: "int \<Rightarrow> string" where
  "str_nat n =
     (if n < 10 then [digit_char n] else str_nat (n div 10) @ [digit_char (n mod 10)])"
  by pat_completeness auto
termination
  by (relation "measure nat") auto

declare str_nat.simps [simp del]

definition str_int :: "int \<Rightarrow> string" where
  "str_int i = (if i < 0 then ''-'' @ str_nat (- i) else str_nat i)"

text \<open>
  Sample values are IEEE doubles in the source; the model takes them as the rationals they
  are. The result of an arithmetic operation on doubles is the exact result rounded to the
  nearest double, ties to the even significand: \<open>to_double\<close>, which covers the normal and
  the subnormal range. NaN, the infinities, the negative zero and overflow are outside the
  model. The format \<^verbatim>\<open>{value:.2f}\<close> rounds the exact value of its argument to two decimals,
  ties to the even neighbour, and keeps the sign of a negative argument also when the digits
  are all zero.
\<close>

text \<open>The number of binary digits of a positive integer.\<close>

function bitlen :: "int \<Rightarrow> int" where
  "bitlen n = (if n \<le> 0 then 0 else 1 + bitlen (n div 2))"
  by pat_completeness auto
termination
  by (relation "measure nat") auto

declare bitlen.simps [simp del]

definition pow2 :: "int \<Rightarrow> rat" where
  "pow2 k = (if 0 \<le> k then 2 ^ nat k else 1 / 2 ^ nat (- k))"

text \<open>The exponent \<open>k\<close> with \<open>2^k \<le> x < 2^(k+1)\<close>, for \<open>x > 0\<close>.\<close>

definition floor_log2 :: "rat \<Rightarrow> int" where
  "floor_log2 x =
     (let k = bitlen (fst (quotient_of x)) - bitlen (snd (quotient_of x))
      in if pow2 k \<le> x then k else k - 1)"

definition round_half_even :: "rat \<Rightarrow> int" where
  "round_half_even x =
     (let f = \<lfloor>x\<rfloor>; r = x - of_int f
      in if r < 1 / 2 then f
         else if 1 / 2 < r then f + 1
         else if even f then f else f + 1)"

definition to_double :: "rat \<Rightarrow> rat" where
  "to_double x =
     (if x = 0 then 0
      else (let e = max (floor_log2 \<bar>x\<bar> - 52) (- 1074)
            in sgn x * of_int (round_half_even (\<bar>x\<bar> / pow2 e)) * pow2 e))"

definition format_2f :: "rat \<Rightarrow> string" where
  "format_2f v =
     (let h = round_half_even (\<bar>v\<bar> * 100)
      in (if v < 0 then ''-'' else '''') @ str_nat (h div 100) @ ''.'' @
         [digit_char (h mod 100 div 10), digit_char (h mod 10)])"

section \<open>Display formatting of a metric value\<close>

text \<open>\<^verbatim>\<open>EC2_report.format_metric_value\<close>\<close>

definition EC2_format_metric_value :: "rat \<Rightarrow> string \<Rightarrow> string" where
  "EC2_format_metric_value v metric_name =
     (if py_in ''CPUUtilization'' metric_name then format_2f v @ ''%''
      else if py_in ''Bytes'' metric_name
           then format_2f (to_double (v / 1000000000)) @ '' GB''
      else format_2f v)"

text \<open>\<^verbatim>\<open>RDS_report.format_metric_value\<close>\<close>

definition RDS_format_metric_value :: "rat \<Rightarrow> string \<Rightarrow> string" where
  "RDS_format_metric_value v metric_name =
     (if py_in ''CPUUtilization'' metric_name then format_2f v @ ''%''
      else if py_in ''FreeableMemory'' metric_name
           then format_2f (to_double (v / 1000000000)) @ '' GB''
      else format_2f v)"

text \<open>\<^verbatim>\<open>ECS_report.format_metric_value\<close>\<close>

definition ECS_format_metric_value :: "rat \<Rightarrow> string \<Rightarrow> string" where
  "ECS_format_metric_value v metric_name =
     (if py_in ''CPUUtilization'' metric_name \<or> py_in ''MemoryUtilization'' metric_name
      then format_2f v @ ''%''
      else format_2f v)"

definition EC2_METRICS :: "string list" where
  "EC2_METRICS = [''CPUCreditUsage'', ''CPUUtilization'', ''MetadataNoToken'', ''CPUCreditBalance'']"

definition RDS_METRICS :: "string list" where
  "RDS_METRICS =
     [''CPUUtilization'', ''FreeableMemory'', ''WriteLatency'', ''ReadLatency'', ''Deadlocks'',
      ''DiskQueueDepth'', ''DatabaseConnections'', ''DeleteLatency'', ''LoginFailures'',
      ''SwapUsage'', ''SelectLatency'', ''ReadThroughput'', ''DDLLatency'', ''WriteIOPS'',
      ''CommitLatency'', ''ReadIOPS'']"

definition ECS_METRICS :: "string list" where
  "ECS_METRICS = [''CPUUtilization'', ''MemoryUtilization'']"

section \<open>Rows, exceptions and the CloudWatch client\<close>

text \<open>
  A table cell holds what the source puts into a row dictionary: a string, \<^verbatim>\<open>None\<close>, an
  integer or a boolean. A row is a Python dictionary with string keys; it is an association
  list, since the order of insertion is the order of the columns.
\<close>

datatype cell = CStr string | CNone | CInt int | CBool bool

fun py_str :: "cell \<Rightarrow> string" where
  "py_str (CStr s) = s"
| "py_str CNone = ''None''"
| "py_str (CInt i) = str_int i"
| "py_str (CBool b) = (if b then ''True'' else ''False'')"

type_synonym row = "(string \<times> cell) list"

text \<open>
  The source uses nothing of an exception but its message text (\<^verbatim>\<open>{e}\<close>), so an
  exception is that text; the exceptions Python itself raises carry the name of their class.
\<close>

type_synonym exn = string

record metric_data_query =
  QueryId :: string
  Namespace :: string
  MetricName :: string
  Dimensions :: "(string \<times> cell) list"
  Period :: int
  Stat :: string
  ReturnData :: bool

record metric_data_result =
  ResultId :: string
  Values :: "rat list"

text \<open>
  What iterating a boto3 paginator gives: the pages it delivers, and the exception that
  ends the iteration, if any.
\<close>

datatype 'a paginated = Paginated (pages: "'a list") (failure: "exn option")

text \<open>
  The CloudWatch client answers a \<^verbatim>\<open>get_metric_data\<close> query with pages of results (the
  list under \<^verbatim>\<open>MetricDataResults\<close> of each page), for the time window of the call, which ends
  at the moment of the call and is \<^verbatim>\<open>METRIC_DAYS\<close> long. It answers
  \<^verbatim>\<open>describe_alarms_for_metric\<close> for an instance id with the names of the alarms or an
  exception.
\<close>

record cloudwatch_client =
  get_metric_data :: "metric_data_query list \<Rightarrow> metric_data_result list paginated"
  describe_alarms_for_metric :: "cell \<Rightarrow> exn + string list"

datatype event =
    Print string
  | PrintTable "row list"
  | MetricQuery "metric_data_query list"
  | WriteExcel string "(row list \<times> nat) list"

section \<open>Python: integer literals and list indexing\<close>

definition is_space :: "char \<Rightarrow> bool" where
  "is_space c \<longleftrightarrow>
     c \<in> set [CHR 0x09, CHR 0x0A, CHR 0x0B, CHR 0x0C, CHR 0x0D,
               CHR 0x1C, CHR 0x1D, CHR 0x1E, CHR 0x1F, CHR 0x20]"

definition strip :: "string \<Rightarrow> string" where
  "strip s = rev (dropWhile is_space (rev (dropWhile is_space s)))"

definition is_digit :: "char \<Rightarrow> bool" where
  "is_digit c \<longleftrightarrow> c \<in> set ''0123456789''"

definition digit_val :: "char \<Rightarrow> int" where
  "digit_val c = of_char c - 48"

text \<open>Decimal digits, where single underscores may stand between two digits.\<close>

fun valid_digits :: "string \<Rightarrow> bool" where
  "valid_digits [] = False"
| "valid_digits [c] = is_digit c"
| "valid_digits (c # d # cs) =
     (is_digit c \<and> (if d = CHR ''_'' then valid_digits cs else valid_digits (d # cs)))"

text \<open>
  \<^verbatim>\<open>int(s)\<close> on a string of ASCII characters: \<open>None\<close> stands for the ValueError.
\<close>

definition py_int :: "string \<Rightarrow> int option" where
  "py_int s =
     (let t = strip s;
          neg = (t \<noteq> [] \<and> hd t = CHR ''-'');
          body = (if t \<noteq> [] \<and> (hd t = CHR ''-'' \<or> hd t = CHR ''+'') then tl t else t)
      in if valid_digits body
         then Some ((if neg then - 1 else 1) *
                    foldl (\<lambda>a c. 10 * a + digit_val c) 0 (filter is_digit body))
         else None)"

text \<open>\<^verbatim>\<open>xs[k]\<close>: a negative index counts from the end; \<open>None\<close> stands for the IndexError.\<close>

definition py_index :: "'a list \<Rightarrow> int \<Rightarrow> 'a option" where
  "py_index xs k =
     (let n = int (length xs); j = (if k < 0 then n + k else k)
      in if 0 \<le> j \<and> j < n then Some (xs ! nat j) else None)"

section \<open>Metric aggregation\<close>

text \<open>The list \<^verbatim>\<open>metric_data_queries\<close> that \<^verbatim>\<open>get_cloudwatch_metrics\<close> builds.\<close>

definition metric_data_queries ::
  "string \<Rightarrow> (string \<times> cell) list \<Rightarrow> string list \<Rightarrow> metric_data_query list" where
  "metric_data_queries namespace dimensions metric_list =
     map (\<lambda>(i, metric_name).
            \<lparr>QueryId = ''m'' @ str_nat (int i), Namespace = namespace,
             MetricName = metric_name, Dimensions = dimensions, Period = 300,
             Stat = ''Average'', ReturnData = True\<rparr>)
         (enumerate 0 metric_list)"

type_synonym results = "(string \<times> rat list) list"

text \<open>\<^verbatim>\<open>all_results\<close>, with an empty list under every metric name.\<close>

definition init_results :: "string list \<Rightarrow> results" where
  "init_results metric_list = fold (\<lambda>metric_name. AList.update metric_name []) metric_list []"

text \<open>The metric a result belongs to: \<^verbatim>\<open>metric_list[int(result['Id'][1:])]\<close>.\<close>

definition result_metric :: "string list \<Rightarrow> metric_data_result \<Rightarrow> exn + string" where
  "result_metric metric_list result =
     (case py_int (drop 1 (ResultId result)) of
        None \<Rightarrow> Inl ''ValueError''
      | Some k \<Rightarrow>
          (case py_index metric_list k of
             None \<Rightarrow> Inl ''IndexError''
           | Some metric_name \<Rightarrow> Inr metric_name))"

text \<open>One round of the inner loop: \<^verbatim>\<open>all_results[metric_name].extend(result['Values'])\<close>.\<close>

definition extend_result ::
  "string list \<Rightarrow> metric_data_result \<Rightarrow> results \<Rightarrow> exn + results" where
  "extend_result metric_list result all_results =
     (case result_metric metric_list result of
        Inl e \<Rightarrow> Inl e
      | Inr metric_name \<Rightarrow>
          (case map_of all_results metric_name of
             None \<Rightarrow> Inl ''KeyError''
           | Some vs \<Rightarrow> Inr (AList.update metric_name (vs @ Values result) all_results)))"

fun extend_results ::
  "string list \<Rightarrow> metric_data_result list \<Rightarrow> results \<Rightarrow> exn + results" where
  "extend_results metric_list [] all_results = Inr all_results"
| "extend_results metric_list (result # rest) all_results =
     (case extend_result metric_list result all_results of
        Inl e \<Rightarrow> Inl e
      | Inr all_results' \<Rightarrow> extend_results metric_list rest all_results')"

fun extend_pages ::
  "string list \<Rightarrow> metric_data_result list list \<Rightarrow> results \<Rightarrow> exn + results" where
  "extend_pages metric_list [] all_results = Inr all_results"
| "extend_pages metric_list (page # rest) all_results =
     (case extend_results metric_list page all_results of
        Inl e \<Rightarrow> Inl e
      | Inr all_results' \<Rightarrow> extend_pages metric_list rest all_results')"

text \<open>
  The loop over the paginator: the pages it delivers are processed in turn, then the
  exception that ends the iteration, if there is one, leaves the \<^verbatim>\<open>try\<close> block.
\<close>

definition collect_pages ::
  "string list \<Rightarrow> metric_data_result list paginated \<Rightarrow> exn + results" where
  "collect_pages metric_list p =
     (case extend_pages metric_list (pages p) (init_results metric_list) of
        Inl e \<Rightarrow> Inl e
      | Inr all_results \<Rightarrow>
          (case failure p of Some e \<Rightarrow> Inl e | None \<Rightarrow> Inr all_results))"

text \<open>
  \<^verbatim>\<open>sum(values)\<close> on a list of doubles, as CPython computes it from version 3.12 on: the
  first value is added to the integer 0, then the values are added from left to right, each
  sum rounded to a double, while a compensation term \<open>c\<close> collects the rounding errors
  (Neumaier's summation); a compensation other than zero is added at the end. Before
  version 3.12 there is no compensation term.
\<close>

definition neumaier_step :: "rat \<times> rat \<Rightarrow> rat \<Rightarrow> rat \<times> rat" where
  "neumaier_step fc x =
     (case fc of (f_result, c) \<Rightarrow>
        (let t = to_double (f_result + x)
         in (t,
             to_double (c +
               (if \<bar>x\<bar> \<le> \<bar>f_result\<bar>
                then to_double (to_double (f_result - t) + x)
                else to_double (to_double (x - t) + f_result))))))"

fun py_sum :: "rat list \<Rightarrow> rat" where
  "py_sum [] = 0"
| "py_sum (x # xs) =
     (case foldl neumaier_step (to_double (0 + x), 0) xs of
        (f_result, c) \<Rightarrow> if c \<noteq> 0 then to_double (f_result + c) else f_result)"

declare py_sum.simps [simp del]


text \<open>
  Minimum, maximum and mean of the values of one metric, formatted, or the sentinel
  \<open>Nil\<close> three times when there is no value.
\<close>

fun reduce_values ::
  "(rat \<Rightarrow> string \<Rightarrow> string) \<Rightarrow> string \<Rightarrow> rat list \<Rightarrow> string \<times> string \<times> string" where
  "reduce_values fmt metric_name [] = (''Nil'', ''Nil'', ''Nil'')"
| "reduce_values fmt metric_name (v # vs) =
     (fmt (fold min vs v) metric_name,
      fmt (fold max vs v) metric_name,
      fmt (to_double (py_sum (v # vs) / of_nat (length (v # vs)))) metric_name)"

definition update_min_max_avg :: "string \<Rightarrow> string \<times> string \<times> string \<Rightarrow> row \<Rightarrow> row" where
  "update_min_max_avg metric_name t metrics_data =
     (case t of (min_val, max_val, avg_val) \<Rightarrow>
        AList.update (metric_name @ '' Avg'') (CStr avg_val)
          (AList.update (metric_name @ '' Max'') (CStr max_val)
             (AList.update (metric_name @ '' Min'') (CStr min_val) metrics_data)))"

text \<open>
  The body of \<^verbatim>\<open>get_cloudwatch_metrics\<close> from the \<^verbatim>\<open>try\<close> on: the row, and the message
  printed by the handler when the query raised.
\<close>

definition metrics_row ::
  "(rat \<Rightarrow> string \<Rightarrow> string) \<Rightarrow> string \<Rightarrow> string list \<Rightarrow> row \<Rightarrow>
   metric_data_result list paginated \<Rightarrow> row \<times> event list" where
  "metrics_row fmt resource_name metric_list metrics_data p =
     (case collect_pages metric_list p of
        Inr all_results \<Rightarrow>
          (fold (\<lambda>(metric_name, values).
                   update_min_max_avg metric_name (reduce_values fmt metric_name values))
                all_results metrics_data, [])
      | Inl e \<Rightarrow>
          (fold (\<lambda>metric. update_min_max_avg metric (''Error'', ''Error'', ''Error''))
                metric_list metrics_data,
           [Print (''Error fetching metrics for '' @ resource_name @ '': '' @ e)]))"

text \<open>\<^verbatim>\<open>get_cloudwatch_metrics\<close> of \<^verbatim>\<open>EC2_report\<close> and of \<^verbatim>\<open>RDS_report\<close>, which differ in
  the formatter alone.\<close>

definition get_cloudwatch_metrics_with ::
  "(rat \<Rightarrow> string \<Rightarrow> string) \<Rightarrow> string \<Rightarrow> (string \<times> cell) list \<Rightarrow> cell \<Rightarrow> string list \<Rightarrow>
   cloudwatch_client \<Rightarrow> row \<times> event list" where
  "get_cloudwatch_metrics_with fmt namespace dimensions resource_name metric_list client =
     (let metric_data_queries = metric_data_queries namespace dimensions metric_list;
          (metrics_data, printed) =
             metrics_row fmt (py_str resource_name) metric_list [(''Name'', resource_name)]
               (get_metric_data client metric_data_queries)
      in (metrics_data,
          [Print (''Fetching CloudWatch metrics for '' @ py_str resource_name @ ''...''),
           MetricQuery metric_data_queries] @ printed))"

definition EC2_get_cloudwatch_metrics ::
  "string \<Rightarrow> (string \<times> cell) list \<Rightarrow> cell \<Rightarrow> string list \<Rightarrow> cloudwatch_client \<Rightarrow>
   row \<times> event list" where
  "EC2_get_cloudwatch_metrics = get_cloudwatch_metrics_with EC2_format_metric_value"

definition RDS_get_cloudwatch_metrics ::
  "string \<Rightarrow> (string \<times> cell) list \<Rightarrow> cell \<Rightarrow> string list \<Rightarrow> cloudwatch_client \<Rightarrow>
   row \<times> event list" where
  "RDS_get_cloudwatch_metrics = get_cloudwatch_metrics_with RDS_format_metric_value"

text \<open>\<^verbatim>\<open>ECS_report.get_cloudwatch_metrics\<close>\<close>

definition ECS_get_cloudwatch_metrics ::
  "string \<Rightarrow> string \<Rightarrow> cloudwatch_client \<Rightarrow> row \<times> event list" where
  "ECS_get_cloudwatch_metrics cluster_name service_name client =
     (let metric_data_queries =
            metric_data_queries ''AWS/ECS''
              [(''ClusterName'', CStr cluster_name), (''ServiceName'', CStr service_name)] ECS_METRICS;
          (metrics_data, printed) =
             metrics_row ECS_format_metric_value service_name ECS_METRICS []
               (get_metric_data client metric_data_queries)
      in (metrics_data, MetricQuery metric_data_queries # printed))"

text \<open>
  The samples of one metric: the values of the results that belong to it, over all pages,
  in the order of arrival.
\<close>

definition samples_of :: "string list \<Rightarrow> string \<Rightarrow> metric_data_result list list \<Rightarrow> rat list" where
  "samples_of metric_list metric_name ps =
     concat (map Values
       (filter (\<lambda>result. result_metric metric_list result = Inr metric_name) (concat ps)))"

definition query_succeeds :: "string list \<Rightarrow> metric_data_result list paginated \<Rightarrow> bool" where
  "query_succeeds metric_list p \<longleftrightarrow>
     failure p = None \<and> list_all (\<lambda>result. \<not> isl (result_metric metric_list result)) (concat (pages p))"

section \<open>EC2 inventory\<close>

text \<open>
  An instance as \<^verbatim>\<open>describe_instances\<close> reports it. A field read with \<^verbatim>\<open>.get\<close> is an option;
  a nested read such as \<^verbatim>\<open>i.get('State', {}).get('Name')\<close> is one option for the whole path.
  A list read with an empty default is the list.
\<close>

record launch_time =
  Year :: int
  Month :: int
  Day :: int
  Hour :: int
  Minute :: int

record ec2_instance =
  InstanceId :: "string option"
  Tags :: "(string \<times> string) list"
  StateName :: "string option"
  InstanceType :: "string option"
  AvailabilityZone :: "string option"
  PublicDnsName :: "string option"
  PublicIpAddress :: "string option"
  Ipv6Addresses :: "string option list"
  MonitoringState :: "string option"
  SecurityGroups :: "string list"
  KeyName :: "string option"
  LaunchTime :: "launch_time option"
  PlatformDetails :: "string option"
  PrivateDnsName :: "string option"

record instance_status =
  StatusInstanceId :: string
  SystemStatus :: "string option"
  InstanceStatus :: "string option"

record address =
  AddressInstanceId :: "string option"
  PublicIp :: string

record ec2_filter =
  FilterName :: string
  FilterValues :: "string list"

text \<open>
  The EC2 client: the answers to \<^verbatim>\<open>describe_instance_status\<close> and \<^verbatim>\<open>describe_addresses\<close>,
  and the pages of reservations (each a list of instances) that the paginator of
  \<^verbatim>\<open>describe_instances\<close> delivers for a list of filters.
\<close>

record ec2_client =
  describe_instance_status :: "exn + instance_status list"
  describe_addresses :: "exn + address list"
  describe_instances :: "ec2_filter list \<Rightarrow> ec2_instance list list paginated"

text \<open>
  A string of the source is the list of the bytes that the source file holds for it, which
  is UTF-8 encoded: the en dash that stands for a missing value, and the pictographs that
  start some of the printed messages. The files of the RDS and of the ECS report hold
  their pictographs in a garbled form.
\<close>

definition en_dash :: string where
  "en_dash = [CHR 0xE2, CHR 0x80, CHR 0x93]"

definition check_mark :: string where
  "check_mark = [CHR 0xE2, CHR 0x9C, CHR 0x85]"

definition rocket :: string where
  "rocket = [CHR 0xF0, CHR 0x9F, CHR 0x9A, CHR 0x80]"

definition cross_mark :: string where
  "cross_mark = [CHR 0xE2, CHR 0x9D, CHR 0x8C]"

definition garbled_check_mark :: string where
  "garbled_check_mark = [CHR 0xE2, CHR 0x80, CHR 0x9A, CHR 0xC3, CHR 0xBA, CHR 0xC3, CHR 0x96]"

definition garbled_rocket :: string where
  "garbled_rocket =
     [CHR 0xEF, CHR 0xA3, CHR 0xBF, CHR 0xC3, CHR 0xBC, CHR 0xC3, CHR 0xB6, CHR 0xC3, CHR 0x84]"

definition garbled_cross_mark :: string where
  "garbled_cross_mark = [CHR 0xE2, CHR 0x80, CHR 0x9A, CHR 0xC3, CHR 0xB9, CHR 0xC3, CHR 0xA5]"

definition cell_of :: "string option \<Rightarrow> cell" where
  "cell_of x = (case x of None \<Rightarrow> CNone | Some s \<Rightarrow> CStr s)"

definition get_or :: "string option \<Rightarrow> string \<Rightarrow> string" where
  "get_or x d = (case x of None \<Rightarrow> d | Some s \<Rightarrow> s)"

fun join :: "string \<Rightarrow> string list \<Rightarrow> string" where
  "join sep [] = []"
| "join sep [x] = x"
| "join sep (x # y # ys) = x @ sep @ join sep (y # ys)"

definition pad2 :: "int \<Rightarrow> string" where
  "pad2 n = (if n < 10 then ''0'' @ str_nat n else str_nat n)"

text \<open>\<^verbatim>\<open>strftime("%Y/%m/%d %H:%M GMT+5:30")\<close>, for a year of four digits.\<close>

definition strftime :: "launch_time \<Rightarrow> string" where
  "strftime t =
     str_nat (Year t) @ ''/'' @ pad2 (Month t) @ ''/'' @ pad2 (Day t) @ '' '' @
     pad2 (Hour t) @ '':'' @ pad2 (Minute t) @ '' GMT+5:30''"

fun name_of_tags :: "(string \<times> string) list \<Rightarrow> string" where
  "name_of_tags [] = ''N/A''"
| "name_of_tags ((k, v) # tags) = (if k = ''Name'' then v else name_of_tags tags)"

definition get_instance_name :: "ec2_instance \<Rightarrow> string" where
  "get_instance_name i = name_of_tags (Tags i)"

text \<open>\<^verbatim>\<open>status_map\<close> and \<^verbatim>\<open>ip_map\<close>: a later entry replaces an earlier one with the same key.\<close>

definition status_map :: "instance_status list \<Rightarrow> (string \<times> instance_status) list" where
  "status_map statuses = fold (\<lambda>s. AList.update (StatusInstanceId s) s) statuses []"

definition ip_map :: "address list \<Rightarrow> (string \<times> string) list" where
  "ip_map addresses =
     fold (\<lambda>a. case AddressInstanceId a of
                  None \<Rightarrow> (\<lambda>m. m)
                | Some k \<Rightarrow> AList.update k (PublicIp a))
          addresses []"

definition status_check :: "(string \<times> instance_status) list \<Rightarrow> string option \<Rightarrow> string" where
  "status_check smap instance_id =
     (case (case instance_id of None \<Rightarrow> None | Some k \<Rightarrow> map_of smap k) of
        None \<Rightarrow> ''N/A''
      | Some status \<Rightarrow>
          if SystemStatus status = Some ''ok'' \<and> InstanceStatus status = Some ''ok''
          then ''2/2 checks passed'' else ''N/A'')"

text \<open>
  The row of one instance, given the alarms found for it. Reading \<^verbatim>\<open>strftime\<close> from a
  missing launch time raises.
\<close>

definition instance_details ::
  "(string \<times> instance_status) list \<Rightarrow> (string \<times> string) list \<Rightarrow> ec2_instance \<Rightarrow> string list \<Rightarrow>
   exn + row" where
  "instance_details smap imap i alarms =
     (case LaunchTime i of
        None \<Rightarrow> Inl ''AttributeError''
      | Some t \<Rightarrow> Inr
         [(''Name'', CStr (get_instance_name i)),
          (''Instance ID'', cell_of (InstanceId i)),
          (''Instance state'', cell_of (StateName i)),
          (''Instance type'', cell_of (InstanceType i)),
          (''Status check'', CStr (status_check smap (InstanceId i))),
          (''Alarm status'', CStr (if alarms \<noteq> [] then ''View alarms'' else ''No alarms'')),
          (''Availability Zone'', cell_of (AvailabilityZone i)),
          (''Public IPv4 DNS'', CStr (get_or (PublicDnsName i) en_dash)),
          (''Public IPv4 address'', CStr (get_or (PublicIpAddress i) en_dash)),
          (''Elastic IP'',
             CStr (case (case InstanceId i of None \<Rightarrow> None | Some k \<Rightarrow> map_of imap k) of
                     None \<Rightarrow> en_dash | Some ip \<Rightarrow> ip)),
          (''IPv6 IPs'', CStr (join '', '' (map (\<lambda>a. get_or a []) (Ipv6Addresses i)))),
          (''Monitoring'', cell_of (MonitoringState i)),
          (''Security group name'', CStr (join '', '' (SecurityGroups i))),
          (''Key name'', CStr (get_or (KeyName i) en_dash)),
          (''Launch time'', CStr (strftime t)),
          (''Platform details'', CStr (get_or (PlatformDetails i) ''Linux/UNIX'')),
          (''Managed'', CStr ''FALSE''),
          (''Operator'', CStr en_dash),
          (''Hostname type'', CStr (''ip-name: '' @ get_or (PrivateDnsName i) [])),
          (''AWS Compute Optimizer finding'', CStr ''Enable Opt In'')])"

text \<open>
  The loops over pages, reservations and instances visit the instances in the order of
  the flattened pages; the first exception ends them.
\<close>

fun details_of_instances ::
  "cloudwatch_client \<Rightarrow> (string \<times> instance_status) list \<Rightarrow> (string \<times> string) list \<Rightarrow>
   ec2_instance list \<Rightarrow> exn + row list" where
  "details_of_instances cw smap imap [] = Inr []"
| "details_of_instances cw smap imap (i # rest) =
     (case describe_alarms_for_metric cw (cell_of (InstanceId i)) of
        Inl e \<Rightarrow> Inl e
      | Inr alarms \<Rightarrow>
          (case instance_details smap imap i alarms of
             Inl e \<Rightarrow> Inl e
           | Inr d \<Rightarrow>
               (case details_of_instances cw smap imap rest of
                  Inl e \<Rightarrow> Inl e
                | Inr ds \<Rightarrow> Inr (d # ds))))"

definition state_filter :: "ec2_filter list" where
  "state_filter =
     [\<lparr>FilterName = ''instance-state-name'', FilterValues = [''running'', ''stopped'']\<rparr>]"

text \<open>\<^verbatim>\<open>get_ec2_instance_details\<close>\<close>

definition get_ec2_instance_details ::
  "ec2_client \<Rightarrow> cloudwatch_client \<Rightarrow> (exn + row list) \<times> event list" where
  "get_ec2_instance_details ec2 cw =
     (let fetching = [Print ''Fetching EC2 instance details...'']
      in case describe_instance_status ec2 of
           Inl e \<Rightarrow> (Inl e, fetching)
         | Inr statuses \<Rightarrow>
             (case describe_addresses ec2 of
                Inl e \<Rightarrow> (Inl e, fetching)
              | Inr addresses \<Rightarrow>
                  (let p = describe_instances ec2 state_filter
                   in case details_of_instances cw (status_map statuses) (ip_map addresses)
                             (concat (concat (pages p))) of
                        Inl e \<Rightarrow> (Inl e, fetching)
                      | Inr instances_details \<Rightarrow>
                          (case failure p of
                             Some e \<Rightarrow> (Inl e, fetching)
                           | None \<Rightarrow>
                               (Inr instances_details,
                                fetching @
                                [Print (check_mark @ '' Found '' @
                                        str_nat (int (length instances_details)) @
                                        '' EC2 instances.'')])))))"

section \<open>The environment of a run and the EC2 report\<close>

record db_instance =
  DBInstanceIdentifier :: "string option"
  DBInstanceClass :: "string option"
  Engine :: "string option"
  DBInstanceStatus :: "string option"
  MultiAZ :: "bool option"
  DBAvailabilityZone :: "string option"
  StorageType :: "string option"
  AllocatedStorage :: "int option"

record rds_client =
  describe_db_instances :: "db_instance list paginated"

record service =
  serviceName :: string
  serviceArn :: "string option"
  status :: "string option"
  launchType :: "string option"
  desiredCount :: "int option"
  runningCount :: "int option"
  taskDefinition :: "string option"

record ecs_client =
  list_clusters :: "exn + string list"
  list_services :: "string \<Rightarrow> string list paginated"
  describe_services :: "string \<Rightarrow> string list \<Rightarrow> exn + service list"

text \<open>
  What a run meets: the exception that creating the session and the clients raises, if
  any; the clients; the time of the run, formatted \<^verbatim>\<open>%Y-%m-%d_%H%M%S\<close>; and the outcome
  of writing a spreadsheet file with the given tables, each at its start row.
\<close>

record aws_env =
  session_error :: "exn option"
  ec2 :: ec2_client
  rds :: rds_client
  ecs :: ecs_client
  cloudwatch :: cloudwatch_client
  timestamp :: string
  write_excel :: "string \<Rightarrow> (row list \<times> nat) list \<Rightarrow> exn option"

text \<open>
  What the handler of a report's \<^verbatim>\<open>main\<close> prints, after the pictograph of that report's
  file.
\<close>

definition unexpected :: "string \<Rightarrow> exn \<Rightarrow> event" where
  "unexpected mark e = Print ([CHR 0x0A] @ mark @ '' An unexpected error occurred: '' @ e)"

text \<open>
  The end of a report's \<^verbatim>\<open>main\<close>: the spreadsheet is written, or the writer raises. The
  two pictographs are those of the report's closing message and of its handler.
\<close>

definition export_report ::
  "aws_env \<Rightarrow> string \<Rightarrow> string \<Rightarrow> string \<Rightarrow> (row list \<times> nat) list \<Rightarrow> event list" where
  "export_report env done_mark error_mark output_file tables =
     (case write_excel env output_file tables of
        Some e \<Rightarrow> [unexpected error_mark e]
      | None \<Rightarrow>
          [WriteExcel output_file tables,
           Print ([CHR 0x0A] @ done_mark @ '' Report generation complete! Saved to '' @
                  [CHR 0x27] @ output_file @ [CHR 0x27])])"

text \<open>The list comprehension of \<^verbatim>\<open>EC2_report.main\<close> that queries the metrics of each row.\<close>

fun EC2_metrics_list :: "cloudwatch_client \<Rightarrow> row list \<Rightarrow> (exn + row list) \<times> event list" where
  "EC2_metrics_list cw [] = (Inr [], [])"
| "EC2_metrics_list cw (d # ds) =
     (case map_of d ''Instance ID'' of
        None \<Rightarrow> (Inl ''KeyError'', [])
      | Some instance_id \<Rightarrow>
          (case map_of d ''Name'' of
             None \<Rightarrow> (Inl ''KeyError'', [])
           | Some name \<Rightarrow>
               (let (m, ev) = EC2_get_cloudwatch_metrics ''AWS/EC2''
                                [(''InstanceId'', instance_id)] name EC2_METRICS cw;
                    (r, evs) = EC2_metrics_list cw ds
                in (case r of Inl e \<Rightarrow> Inl e | Inr ms \<Rightarrow> Inr (m # ms), ev @ evs))))"

text \<open>
  \<^verbatim>\<open>EC2_report.main\<close>. Every exception is caught inside, so the outcome is always a normal
  return; the outcome is kept in the type for the sake of the caller's handler.
\<close>

definition EC2_main :: "aws_env \<Rightarrow> (exn + unit) \<times> event list" where
  "EC2_main env =
     (Inr (),
      case session_error env of
        Some e \<Rightarrow> [unexpected cross_mark e]
      | None \<Rightarrow>
          Print ([CHR 0x0A] @ ''--- Generating EC2 Report ---'') #
          (let (r, ev) = get_ec2_instance_details (ec2 env) (cloudwatch env)
           in ev @
              (case r of
                 Inl e \<Rightarrow> [unexpected cross_mark e]
               | Inr details_list \<Rightarrow>
                   if details_list = [] then [Print ''No EC2 instances found. Exiting.'']
                   else
                     (let (r', ev') = EC2_metrics_list (cloudwatch env) details_list
                      in ev' @
                         (case r' of
                            Inl e \<Rightarrow> [unexpected cross_mark e]
                          | Inr metrics_list \<Rightarrow>
                              [Print ([CHR 0x0A] @ ''--- EC2 Metrics (Min, Max, Avg) ---''),
                               PrintTable metrics_list] @
                              export_report env rocket cross_mark
                                (''EC2_Report_'' @ timestamp env @ ''.xlsx'')
                                [(details_list, 0),
                                 (metrics_list, length details_list + 3)])))))"

section \<open>The RDS report\<close>

definition db_details :: "db_instance \<Rightarrow> row" where
  "db_details db =
     [(''DBInstanceIdentifier'', cell_of (DBInstanceIdentifier db)),
      (''DBInstanceClass'', cell_of (DBInstanceClass db)),
      (''Engine'', cell_of (Engine db)),
      (''DBInstanceStatus'', cell_of (DBInstanceStatus db)),
      (''MultiAZ'', case MultiAZ db of None \<Rightarrow> CNone | Some b \<Rightarrow> CBool b),
      (''AvailabilityZone'', cell_of (DBAvailabilityZone db)),
      (''StorageType'', cell_of (StorageType db)),
      (''AllocatedStorage'',
         CStr (py_str (case AllocatedStorage db of None \<Rightarrow> CNone | Some n \<Rightarrow> CInt n) @ '' GB''))]"

text \<open>\<^verbatim>\<open>get_rds_instance_details\<close>\<close>

definition get_rds_instance_details :: "rds_client \<Rightarrow> (exn + row list) \<times> event list" where
  "get_rds_instance_details client =
     (let fetching = [Print ''Fetching RDS instance details...''];
          p = describe_db_instances client;
          db_instances = map db_details (concat (pages p))
      in case failure p of
           Some e \<Rightarrow> (Inl e, fetching)
         | None \<Rightarrow>
             (Inr db_instances,
              fetching @
              [Print (garbled_check_mark @ '' Found '' @ str_nat (int (length db_instances)) @
                      '' RDS instances.'')]))"

fun RDS_metrics_list :: "cloudwatch_client \<Rightarrow> row list \<Rightarrow> (exn + row list) \<times> event list" where
  "RDS_metrics_list cw [] = (Inr [], [])"
| "RDS_metrics_list cw (d # ds) =
     (case map_of d ''DBInstanceIdentifier'' of
        None \<Rightarrow> (Inl ''KeyError'', [])
      | Some identifier \<Rightarrow>
          (let (m, ev) = RDS_get_cloudwatch_metrics ''AWS/RDS''
                           [(''DBInstanceIdentifier'', identifier)] identifier RDS_METRICS cw;
               (r, evs) = RDS_metrics_list cw ds
           in (case r of Inl e \<Rightarrow> Inl e | Inr ms \<Rightarrow> Inr (m # ms), ev @ evs)))"

text \<open>\<^verbatim>\<open>RDS_report.main\<close>\<close>

definition RDS_main :: "aws_env \<Rightarrow> (exn + unit) \<times> event list" where
  "RDS_main env =
     (Inr (),
      case session_error env of
        Some e \<Rightarrow> [unexpected garbled_cross_mark e]
      | None \<Rightarrow>
          Print ([CHR 0x0A] @ ''--- Generating RDS Report ---'') #
          (let (r, ev) = get_rds_instance_details (rds env)
           in ev @
              (case r of
                 Inl e \<Rightarrow> [unexpected garbled_cross_mark e]
               | Inr details_list \<Rightarrow>
                   if details_list = [] then [Print ''No RDS instances found. Exiting.'']
                   else
                     (let (r', ev') = RDS_metrics_list (cloudwatch env) details_list
                      in ev' @
                         (case r' of
                            Inl e \<Rightarrow> [unexpected garbled_cross_mark e]
                          | Inr metrics_list \<Rightarrow>
                              export_report env garbled_rocket garbled_cross_mark
                                (''RDS_Report_'' @ timestamp env @ ''.xlsx'')
                                [(details_list, 0),
                                 (metrics_list, length details_list + 3)])))))"

section \<open>The ECS report\<close>

text \<open>\<^verbatim>\<open>cluster_arn.split("/")[-1]\<close>\<close>

definition last_segment :: "string \<Rightarrow> string" where
  "last_segment s = rev (takeWhile (\<lambda>c. c \<noteq> CHR ''/'') (rev s))"

text \<open>The slices \<^verbatim>\<open>service_arns[i:i+10]\<close> for \<^verbatim>\<open>i\<close> in \<^verbatim>\<open>range(0, len(service_arns), 10)\<close>.\<close>

function batches :: "'a list \<Rightarrow> 'a list list" where
  "batches xs = (if xs = [] then [] else take 10 xs # batches (drop 10 xs))"
  by pat_completeness auto
termination
  by (relation "measure length") auto

declare batches.simps [simp del]

definition service_row :: "string \<Rightarrow> service \<Rightarrow> row \<Rightarrow> row" where
  "service_row cluster_name sv stats =
     fold (\<lambda>(k, v). AList.update k v) stats
       [(''Cluster'', CStr cluster_name),
        (''Service Name'', CStr (serviceName sv)),
        (''ARN'', cell_of (serviceArn sv)),
        (''Status'', cell_of (status sv)),
        (''Launch Type'', CStr (get_or (launchType sv) ''EC2'')),
        (''Desired Tasks'', CInt (case desiredCount sv of None \<Rightarrow> 0 | Some n \<Rightarrow> n)),
        (''Running Tasks'', CInt (case runningCount sv of None \<Rightarrow> 0 | Some n \<Rightarrow> n)),
        (''Task Definition'', cell_of (taskDefinition sv))]"

text \<open>The four nested loops of \<^verbatim>\<open>get_ecs_report_data\<close>, innermost first.\<close>

fun ecs_services :: "cloudwatch_client \<Rightarrow> string \<Rightarrow> service list \<Rightarrow> row list \<times> event list" where
  "ecs_services cw cluster_name [] = ([], [])"
| "ecs_services cw cluster_name (sv # rest) =
     (let (stats, ev) = ECS_get_cloudwatch_metrics cluster_name (serviceName sv) cw;
          (rows, evs) = ecs_services cw cluster_name rest
      in (service_row cluster_name sv stats # rows, ev @ evs))"

fun ecs_batches ::
  "ecs_client \<Rightarrow> cloudwatch_client \<Rightarrow> string \<Rightarrow> string list list \<Rightarrow>
   (exn + row list) \<times> event list" where
  "ecs_batches client cw cluster_arn [] = (Inr [], [])"
| "ecs_batches client cw cluster_arn (service_batch # rest) =
     (case describe_services client cluster_arn service_batch of
        Inl e \<Rightarrow> (Inl e, [])
      | Inr services_desc \<Rightarrow>
          (let (rows, ev) = ecs_services cw (last_segment cluster_arn) services_desc;
               (r, evs) = ecs_batches client cw cluster_arn rest
           in (case r of Inl e \<Rightarrow> Inl e | Inr rows' \<Rightarrow> Inr (rows @ rows'), ev @ evs)))"

fun ecs_pages ::
  "ecs_client \<Rightarrow> cloudwatch_client \<Rightarrow> string \<Rightarrow> string list list \<Rightarrow>
   (exn + row list) \<times> event list" where
  "ecs_pages client cw cluster_arn [] = (Inr [], [])"
| "ecs_pages client cw cluster_arn (service_arns # rest) =
     (let (r, ev) = ecs_batches client cw cluster_arn (batches service_arns)
      in case r of
           Inl e \<Rightarrow> (Inl e, ev)
         | Inr rows \<Rightarrow>
             (let (r', evs) = ecs_pages client cw cluster_arn rest
              in (case r' of Inl e \<Rightarrow> Inl e | Inr rows' \<Rightarrow> Inr (rows @ rows'), ev @ evs)))"

fun ecs_clusters ::
  "ecs_client \<Rightarrow> cloudwatch_client \<Rightarrow> string list \<Rightarrow> (exn + row list) \<times> event list" where
  "ecs_clusters client cw [] = (Inr [], [])"
| "ecs_clusters client cw (cluster_arn # rest) =
     (let p = list_services client cluster_arn;
          (r, ev) = ecs_pages client cw cluster_arn (pages p)
      in case r of
           Inl e \<Rightarrow> (Inl e, ev)
         | Inr rows \<Rightarrow>
             (case failure p of
                Some e \<Rightarrow> (Inl e, ev)
              | None \<Rightarrow>
                  (let (r', evs) = ecs_clusters client cw rest
                   in (case r' of Inl e \<Rightarrow> Inl e | Inr rows' \<Rightarrow> Inr (rows @ rows'),
                       ev @ evs))))"

text \<open>\<^verbatim>\<open>get_ecs_report_data\<close>\<close>

definition get_ecs_report_data ::
  "ecs_client \<Rightarrow> cloudwatch_client \<Rightarrow> (exn + row list) \<times> event list" where
  "get_ecs_report_data client cw =
     (let fetching = [Print ''Fetching ECS service details and metrics...'']
      in case list_clusters client of
           Inl e \<Rightarrow> (Inl e, fetching)
         | Inr cluster_arns \<Rightarrow>
             (let (r, ev) = ecs_clusters client cw cluster_arns
              in case r of
                   Inl e \<Rightarrow> (Inl e, fetching @ ev)
                 | Inr all_services_data \<Rightarrow>
                     (Inr all_services_data,
                      fetching @ ev @
                      [Print (garbled_check_mark @ '' Found and processed '' @
                              str_nat (int (length all_services_data)) @ '' ECS services.'')])))"

definition final_columns :: "string list" where
  "final_columns =
     [''Cluster'', ''Service Name'', ''ARN'', ''Status'', ''Launch Type'', ''Desired Tasks'',
      ''Running Tasks'', ''Task Definition'', ''CPUUtilization Min'', ''CPUUtilization Max'',
      ''CPUUtilization Avg'', ''MemoryUtilization Min'', ''MemoryUtilization Max'',
      ''MemoryUtilization Avg'']"

text \<open>\<^verbatim>\<open>df.reindex(columns=...)\<close> on one row; a column the row lacks is left empty.\<close>

definition reindex :: "string list \<Rightarrow> row \<Rightarrow> row" where
  "reindex columns r =
     map (\<lambda>c. (c, case map_of r c of None \<Rightarrow> CNone | Some v \<Rightarrow> v)) columns"

text \<open>\<^verbatim>\<open>ECS_report.main\<close>\<close>

definition ECS_main :: "aws_env \<Rightarrow> (exn + unit) \<times> event list" where
  "ECS_main env =
     (Inr (),
      case session_error env of
        Some e \<Rightarrow> [unexpected garbled_cross_mark e]
      | None \<Rightarrow>
          Print ([CHR 0x0A] @ ''--- Generating ECS Report ---'') #
          (let (r, ev) = get_ecs_report_data (ecs env) (cloudwatch env)
           in ev @
              (case r of
                 Inl e \<Rightarrow> [unexpected garbled_cross_mark e]
               | Inr report_data \<Rightarrow>
                   if report_data = [] then [Print ''No ECS services found. Exiting.'']
                   else
                     export_report env garbled_rocket garbled_cross_mark
                                (''ECS_Report_'' @ timestamp env @ ''.xlsx'')
                       [(map (reindex final_columns) report_data, 0)])))"

section \<open>The process entry point\<close>

text \<open>
  One \<^verbatim>\<open>try\<close> block of \<^verbatim>\<open>main.main\<close>: the report runs, and an exception that it raises is
  caught and printed.
\<close>

definition report_step :: "string \<Rightarrow> (exn + unit) \<times> event list \<Rightarrow> event list" where
  "report_step name report =
     Print ([CHR 0x0A] @ ''--- Generating '' @ name @ '' Report ---'') # snd report @
     (case fst report of
        Inl e \<Rightarrow> [Print (cross_mark @ '' Error generating '' @ name @ '' report: '' @ e)]
      | Inr u \<Rightarrow> [])"

text \<open>\<^verbatim>\<open>main.main\<close>, for the outcomes of the three reports it calls.\<close>

definition main_with ::
  "(exn + unit) \<times> event list \<Rightarrow> (exn + unit) \<times> event list \<Rightarrow> (exn + unit) \<times> event list \<Rightarrow>
   (exn + unit) \<times> event list" where
  "main_with ec2_report rds_report ecs_report =
     (Inr (),
      [Print ''--- Starting AWS Report Generation ---''] @
      report_step ''EC2'' ec2_report @
      report_step ''RDS'' rds_report @
      report_step ''ECS'' ecs_report @
      [Print ([CHR 0x0A] @ ''--- All Reports Generated Successfully ---'')])"

definition main :: "aws_env \<Rightarrow> (exn + unit) \<times> event list" where
  "main env = main_with (EC2_main env) (RDS_main env) (ECS_main env)"

text \<open>
  The account's instances as the service holds them, in pages of reservations, and the
  documented answer of \<^verbatim>\<open>describe_instances\<close> to a filter on \<^verbatim>\<open>instance-state-name\<close>: the
  instances whose state is one of the filter's values.
\<close>

definition matches_filters :: "ec2_filter list \<Rightarrow> ec2_instance \<Rightarrow> bool" where
  "matches_filters filters i \<longleftrightarrow>
     list_all (\<lambda>f. FilterName f = ''instance-state-name'' \<longrightarrow>
                   (case StateName i of None \<Rightarrow> False | Some s \<Rightarrow> s \<in> set (FilterValues f)))
              filters"

definition service_describe_instances ::
  "ec2_instance list list list \<Rightarrow> ec2_filter list \<Rightarrow> ec2_instance list list paginated" where
  "service_describe_instances fleet filters =
     Paginated (map (map (filter (matches_filters filters))) fleet) None"

section \<open>Events of interest\<close>

fun is_query :: "event \<Rightarrow> bool" where
  "is_query (MetricQuery q) = True"
| "is_query e = False"

fun is_write :: "event \<Rightarrow> bool" where
  "is_write (WriteExcel f t) = True"
| "is_write e = False"

section \<open>What a metrics row says about one metric\<close>

text \<open>The three derived fields of a metric all hold the given string.\<close>

definition fields_are :: "string \<Rightarrow> string \<Rightarrow> row \<Rightarrow> bool" where
  "fields_are metric_name x r \<longleftrightarrow>
     map_of r (metric_name @ '' Min'') = Some (CStr x) \<and>
     map_of r (metric_name @ '' Max'') = Some (CStr x) \<and>
     map_of r (metric_name @ '' Avg'') = Some (CStr x)"


section \<open>Example clients\<close>

text \<open>A client whose metric query delivers the series 10, 20, 30 for the second metric of
  the list, over two pages, and nothing for the first.\<close>

definition example_pages :: "metric_data_result list list" where
  "example_pages =
     [[\<lparr>ResultId = ''m1'', Values = [10, 20]\<rparr>, \<lparr>ResultId = ''m0'', Values = []\<rparr>],
      [\<lparr>ResultId = ''m1'', Values = [30]\<rparr>]]"

definition example_cloudwatch :: cloudwatch_client where
  "example_cloudwatch =
     \<lparr>get_metric_data = (\<lambda>q. Paginated example_pages None),
      describe_alarms_for_metric = (\<lambda>i. Inr [])\<rparr>"

text \<open>A client whose metric query raises after the first page.\<close>

definition failing_cloudwatch :: cloudwatch_client where
  "failing_cloudwatch =
     \<lparr>get_metric_data = (\<lambda>q. Paginated (take 1 example_pages) (Some ''Throttling'')),
      describe_alarms_for_metric = (\<lambda>i. Inr [])\<rparr>"

section \<open>Example environments\<close>

definition example_instance :: "string \<Rightarrow> string \<Rightarrow> ec2_instance" where
  "example_instance instance_id state =
     \<lparr>InstanceId = Some instance_id, Tags = [(''Name'', ''web-'' @ instance_id)],
      StateName = Some state, InstanceType = Some ''t3.micro'', AvailabilityZone = None,
      PublicDnsName = None, PublicIpAddress = None, Ipv6Addresses = [],
      MonitoringState = None, SecurityGroups = [], KeyName = None,
      LaunchTime = Some \<lparr>Year = 2024, Month = 5, Day = 7, Hour = 9, Minute = 30\<rparr>,
      PlatformDetails = None, PrivateDnsName = None\<rparr>"

text \<open>Four instances in two pages: one running, one terminated, one stopped, one pending.\<close>

definition example_fleet :: "ec2_instance list list list" where
  "example_fleet =
     [[[example_instance ''i-1'' ''running'', example_instance ''i-2'' ''terminated''],
       [example_instance ''i-3'' ''stopped'']],
      [[example_instance ''i-4'' ''pending'']]]"

definition example_ec2 :: ec2_client where
  "example_ec2 =
     \<lparr>describe_instance_status = Inr [], describe_addresses = Inr [],
      describe_instances = service_describe_instances example_fleet\<rparr>"

definition example_rds :: rds_client where
  "example_rds =
     \<lparr>describe_db_instances = Paginated
        [[\<lparr>DBInstanceIdentifier = Some ''db-1'', DBInstanceClass = None, Engine = None,
           DBInstanceStatus = None, MultiAZ = None, DBAvailabilityZone = None,
           StorageType = None, AllocatedStorage = Some 20\<rparr>]] None\<rparr>"

definition example_ecs :: ecs_client where
  "example_ecs =
     \<lparr>list_clusters = Inr [], list_services = (\<lambda>c. Paginated [] None),
      describe_services = (\<lambda>c b. Inr [])\<rparr>"

text \<open>A run in which every listing succeeds and every metric query raises.\<close>

definition example_env :: aws_env where
  "example_env =
     \<lparr>session_error = None, ec2 = example_ec2, rds = example_rds, ecs = example_ecs,
      cloudwatch = failing_cloudwatch, timestamp = ''2024-05-07_093000'',
      write_excel = (\<lambda>f t. None)\<rparr>"

text \<open>A run in which the listings succeed and return nothing.\<close>

definition empty_env :: aws_env where
  "empty_env =
     example_env
       \<lparr>ec2 := example_ec2\<lparr>describe_instances := (\<lambda>f. Paginated [] None)\<rparr>,
        rds := \<lparr>describe_db_instances = Paginated [] None\<rparr>\<rparr>"

text \<open>A run in which the first listing call of each report raises.\<close>

definition broken_env :: aws_env where
  "broken_env =
     example_env
       \<lparr>ec2 := example_ec2\<lparr>describe_instance_status := Inl ''AccessDenied''\<rparr>,
        rds := \<lparr>describe_db_instances = Paginated [] (Some ''AccessDenied'')\<rparr>,
        ecs := example_ecs\<lparr>list_clusters := Inl ''AccessDenied''\<rparr>\<rparr>"

section \<open>Formatting: properties\<close>

lemma take_length_eq_iff: "take (length sub) s = sub \<longleftrightarrow> (\<exists>q. s = sub @ q)"
  by (metis append_eq_conv_conj append_take_drop_id)

lemma py_in_iff: "py_in sub s \<longleftrightarrow> (\<exists>p q. s = p @ sub @ q)"
proof (induction s)
  case Nil
  show ?case by simp
next
  case (Cons c cs)
  have "(\<exists>p q. c # cs = p @ sub @ q) \<longleftrightarrow>
        (\<exists>q. c # cs = sub @ q) \<or> (\<exists>p q. cs = p @ sub @ q)"
  proof
    assume "\<exists>p q. c # cs = p @ sub @ q"
    then obtain p q where pq: "c # cs = p @ sub @ q" by blast
    show "(\<exists>q. c # cs = sub @ q) \<or> (\<exists>p q. cs = p @ sub @ q)"
    proof (cases p)
      case Nil
      with pq have "c # cs = sub @ q" by simp
      then show ?thesis by blast
    next
      case (Cons a p')
      with pq have "cs = p' @ sub @ q" by simp
      then show ?thesis by blast
    qed
  next
    assume "(\<exists>q. c # cs = sub @ q) \<or> (\<exists>p q. cs = p @ sub @ q)"
    then show "\<exists>p q. c # cs = p @ sub @ q"
    proof
      assume "\<exists>q. c # cs = sub @ q"
      then obtain q where "c # cs = sub @ q" by blast
      then have "c # cs = [] @ sub @ q" by simp
      then show ?thesis by (rule_tac x = "[]" in exI, rule_tac x = q in exI)
    next
      assume "\<exists>p q. cs = p @ sub @ q"
      then obtain p q where "cs = p @ sub @ q" by blast
      then have "c # cs = (c # p) @ sub @ q" by simp
      then show ?thesis by (rule_tac x = "c # p" in exI, rule_tac x = q in exI)
    qed
  qed
  with Cons.IH show ?case
    by (simp only: py_in.simps take_length_eq_iff)
qed

lemma digit_char_range:
  assumes "0 \<le> d" and "d < 10"
  shows "digit_char d \<in> set ''0123456789''"
proof -
  have "nat d < length ''0123456789''" using assms by simp
  then show ?thesis unfolding digit_char_def by (rule nth_mem)
qed

lemma last_format_2f: "last (format_2f v) \<in> set ''0123456789''"
proof -
  define h where "h = round_half_even (\<bar>v\<bar> * 100)"
  have "last (format_2f v) = digit_char (h mod 10)"
    by (simp add: format_2f_def Let_def h_def)
  moreover have "digit_char (h mod 10) \<in> set ''0123456789''"
    by (rule digit_char_range) simp_all
  ultimately show ?thesis by simp
qed

lemma last_format_2f_ne:
  "last (format_2f v) \<noteq> CHR ''%''" "last (format_2f v) \<noteq> CHR ''B''"
  using last_format_2f [of v] by auto

lemma RDS_last_percent:
  "(last (RDS_format_metric_value v n) = CHR ''%'') = py_in ''CPUUtilization'' n"
  by (simp add: RDS_format_metric_value_def last_format_2f_ne)

lemma RDS_last_GB:
  "(last (RDS_format_metric_value v n) = CHR ''B'') =
     (\<not> py_in ''CPUUtilization'' n \<and> py_in ''FreeableMemory'' n)"
  by (simp add: RDS_format_metric_value_def last_format_2f_ne)

lemma ECS_last_percent:
  "(last (ECS_format_metric_value v n) = CHR ''%'') =
     (py_in ''CPUUtilization'' n \<or> py_in ''MemoryUtilization'' n)"
  by (simp add: ECS_format_metric_value_def last_format_2f_ne)

lemma ECS_last_GB: "last (ECS_format_metric_value v n) \<noteq> CHR ''B''"
  by (simp add: ECS_format_metric_value_def last_format_2f_ne)

text \<open>
  C5. A utilization value of 42.5 is rendered as \<open>42.50%\<close> by the EC2 and the RDS formatter,
  and a memory value of 2147483648 bytes as \<open>2.15 GB\<close>: by the RDS formatter for its memory
  metric FreeableMemory, and by the EC2 formatter for a metric named in bytes.
\<close>

theorem format_metric_value_examples:
  "EC2_format_metric_value 42.5 ''CPUUtilization'' = ''42.50%'' \<and>
   RDS_format_metric_value 42.5 ''CPUUtilization'' = ''42.50%'' \<and>
   RDS_format_metric_value 2147483648 ''FreeableMemory'' = ''2.15 GB'' \<and>
   EC2_format_metric_value 2147483648 ''MemoryBytes'' = ''2.15 GB''"
  by code_simp

text \<open>
  C6, as the spec states it, fails: the RDS formatter renders the throughput metric
  ReadThroughput with plain two decimals, not in gigabytes, and so do the other two.
\<close>

theorem throughput_not_gigabytes:
  "RDS_format_metric_value 1000000000 ''ReadThroughput'' = ''1000000000.00'' \<and>
   RDS_format_metric_value 1000000000 ''ReadThroughput'' \<noteq> ''1.00 GB'' \<and>
   ECS_format_metric_value 1000000000 ''ReadThroughput'' = ''1000000000.00'' \<and>
   EC2_format_metric_value 1000000000 ''ReadThroughput'' = ''1000000000.00''"
  by code_simp

text \<open>
  C6, amended. The formatter decides by substring tests on the metric name alone. In the RDS
  report a name containing CPUUtilization gets the percent suffix, any other name containing
  FreeableMemory is divided by \<open>10^9\<close> (a division of doubles) and gets the suffix GB, and
  every other name, the throughput metric ReadThroughput among them, is printed with plain
  two decimals. In the ECS report a name containing CPUUtilization or MemoryUtilization gets
  the percent suffix and every other name plain two decimals; there is no conversion to
  gigabytes. The output shows which rule was applied: it ends in a percent sign exactly for
  the names of the first kind, in the letter B of GB exactly for those of the second, and
  in a digit otherwise. So 5000000 and 25000000 bytes of FreeableMemory are printed as
  \<open>0.01 GB\<close> and \<open>0.03 GB\<close>, and a ReadThroughput of 1000000000 as \<open>1000000000.00\<close>.
\<close>

theorem format_metric_value_by_substring:
  "RDS_format_metric_value v n =
     (if \<exists>p q. n = p @ ''CPUUtilization'' @ q then format_2f v @ ''%''
      else if \<exists>p q. n = p @ ''FreeableMemory'' @ q
           then format_2f (to_double (v / 1000000000)) @ '' GB''
      else format_2f v) \<and>
   ECS_format_metric_value v n =
     (if (\<exists>p q. n = p @ ''CPUUtilization'' @ q) \<or> (\<exists>p q. n = p @ ''MemoryUtilization'' @ q)
      then format_2f v @ ''%''
      else format_2f v) \<and>
   RDS_format_metric_value v ''ReadThroughput'' = format_2f v \<and>
   ECS_format_metric_value v ''ReadThroughput'' = format_2f v \<and>
   (last (RDS_format_metric_value v n) = CHR ''%'') = (\<exists>p q. n = p @ ''CPUUtilization'' @ q) \<and>
   (last (RDS_format_metric_value v n) = CHR ''B'') =
     (\<not> (\<exists>p q. n = p @ ''CPUUtilization'' @ q) \<and> (\<exists>p q. n = p @ ''FreeableMemory'' @ q)) \<and>
   (last (ECS_format_metric_value v n) = CHR ''%'') =
     ((\<exists>p q. n = p @ ''CPUUtilization'' @ q) \<or> (\<exists>p q. n = p @ ''MemoryUtilization'' @ q)) \<and>
   last (ECS_format_metric_value v n) \<noteq> CHR ''B'' \<and>
   RDS_format_metric_value 5000000 ''FreeableMemory'' = ''0.01 GB'' \<and>
   RDS_format_metric_value 25000000 ''FreeableMemory'' = ''0.03 GB'' \<and>
   RDS_format_metric_value 1000000000 ''ReadThroughput'' = ''1000000000.00'' \<and>
   ECS_format_metric_value 42.5 ''MemoryUtilization'' = ''42.50%''"
proof -
  have a: "RDS_format_metric_value v n =
     (if \<exists>p q. n = p @ ''CPUUtilization'' @ q then format_2f v @ ''%''
      else if \<exists>p q. n = p @ ''FreeableMemory'' @ q
           then format_2f (to_double (v / 1000000000)) @ '' GB''
      else format_2f v)"
    unfolding RDS_format_metric_value_def py_in_iff by (rule refl)
  have b: "ECS_format_metric_value v n =
     (if (\<exists>p q. n = p @ ''CPUUtilization'' @ q) \<or> (\<exists>p q. n = p @ ''MemoryUtilization'' @ q)
      then format_2f v @ ''%''
      else format_2f v)"
    unfolding ECS_format_metric_value_def py_in_iff by (rule refl)
  have c: "RDS_format_metric_value v ''ReadThroughput'' = format_2f v"
    by (simp add: RDS_format_metric_value_def)
  have d: "ECS_format_metric_value v ''ReadThroughput'' = format_2f v"
    by (simp add: ECS_format_metric_value_def)
  note e = RDS_last_percent [of v n, unfolded py_in_iff]
  note f = RDS_last_GB [of v n, unfolded py_in_iff]
  note g = ECS_last_percent [of v n, unfolded py_in_iff]
  note h = ECS_last_GB [of v n]
  have i: "RDS_format_metric_value 5000000 ''FreeableMemory'' = ''0.01 GB''"
    by code_simp
  have j: "RDS_format_metric_value 25000000 ''FreeableMemory'' = ''0.03 GB''"
    by code_simp
  have k: "RDS_format_metric_value 1000000000 ''ReadThroughput'' = ''1000000000.00''"
    by code_simp
  have l: "ECS_format_metric_value 42.5 ''MemoryUtilization'' = ''42.50%''"
    by code_simp
  show ?thesis
    by (rule conjI [OF a conjI [OF b conjI [OF c conjI [OF d conjI [OF e conjI [OF f
          conjI [OF g conjI [OF h conjI [OF i conjI [OF j conjI [OF k l]]]]]]]]]]])
qed

theorem format_metric_value_by_substring_witness:
  "RDS_format_metric_value 5000000 ''FreeableMemory'' = ''0.01 GB'' \<and>
   last (RDS_format_metric_value 5000000 ''FreeableMemory'') = CHR ''B'' \<and>
   last (RDS_format_metric_value 7 ''ReadThroughput'') \<noteq> CHR ''B'' \<and>
   last (ECS_format_metric_value 7 ''MemoryUtilization'') = CHR ''%''"
proof -
  note t1 = format_metric_value_by_substring [of 5000000 "''FreeableMemory''", folded py_in_iff]
  note t2 = format_metric_value_by_substring [of 7 "''ReadThroughput''", folded py_in_iff]
  note t3 = format_metric_value_by_substring [of 7 "''MemoryUtilization''", folded py_in_iff]
  have r1: "RDS_format_metric_value 5000000 ''FreeableMemory'' = ''0.01 GB''"
    using t1 by (elim conjE)
  have r2: "last (RDS_format_metric_value 5000000 ''FreeableMemory'') = CHR ''B''"
    by (simp add: r1)
  have "(last (RDS_format_metric_value 7 ''ReadThroughput'') = CHR ''B'') =
     (\<not> py_in ''CPUUtilization'' ''ReadThroughput'' \<and> py_in ''FreeableMemory'' ''ReadThroughput'')"
    using t2 by (elim conjE)
  then have r3: "last (RDS_format_metric_value 7 ''ReadThroughput'') \<noteq> CHR ''B''"
    by simp
  have "(last (ECS_format_metric_value 7 ''MemoryUtilization'') = CHR ''%'') =
     (py_in ''CPUUtilization'' ''MemoryUtilization'' \<or>
      py_in ''MemoryUtilization'' ''MemoryUtilization'')"
    using t3 by (elim conjE)
  then have r4: "last (ECS_format_metric_value 7 ''MemoryUtilization'') = CHR ''%''"
    by simp
  show ?thesis by (rule conjI [OF r1 conjI [OF r2 conjI [OF r3 r4]]])
qed


section \<open>Metric aggregation: properties\<close>

lemma map_of_init_fold:
  "map_of (fold (\<lambda>m. AList.update m []) ml res) k =
     (if k \<in> set ml then Some [] else map_of res k)"
  by (induction ml arbitrary: res) (auto simp: update_conv')

lemma map_of_init_results:
  "map_of (init_results ml) k = (if k \<in> set ml then Some [] else None)"
  by (simp add: init_results_def map_of_init_fold)

lemma distinct_init_fold:
  "distinct (map fst res) \<Longrightarrow> distinct (map fst (fold (\<lambda>m. AList.update m []) ml res))"
  by (induction ml arbitrary: res) (auto simp: distinct_update)

lemma distinct_init_results: "distinct (map fst (init_results ml))"
  by (simp add: init_results_def distinct_init_fold)

lemma py_index_mem: "py_index xs k = Some x \<Longrightarrow> x \<in> set xs"
  by (auto simp: py_index_def Let_def split: if_splits)

lemma result_metric_mem: "result_metric ml r = Inr m \<Longrightarrow> m \<in> set ml"
  by (auto simp: result_metric_def split: option.splits dest: py_index_mem)

lemma extend_results_append:
  "extend_results ml (xs @ ys) r =
     (case extend_results ml xs r of Inl e \<Rightarrow> Inl e | Inr r' \<Rightarrow> extend_results ml ys r')"
  by (induction xs arbitrary: r) (auto split: sum.splits)

lemma extend_pages_concat:
  "extend_pages ml ps res = extend_results ml (concat ps) res"
  by (induction ps arbitrary: res) (auto simp: extend_results_append split: sum.splits)

text \<open>The state of \<open>all_results\<close> after a run of results that all name a metric.\<close>

lemma extend_results_ok:
  assumes "\<forall>r \<in> set rs. \<exists>m. result_metric ml r = Inr m"
    and "set ml \<subseteq> dom (map_of res)"
  shows "\<exists>res'. extend_results ml rs res = Inr res' \<and>
           (\<forall>k. map_of res' k =
              map_option (\<lambda>vs. vs @ concat (map Values
                 (filter (\<lambda>r. result_metric ml r = Inr k) rs))) (map_of res k)) \<and>
           (distinct (map fst res) \<longrightarrow> distinct (map fst res'))"
  using assms
proof (induction rs arbitrary: res)
  case Nil
  show ?case by (simp add: option.map_ident)
next
  case (Cons r rs)
  from Cons.prems(1) obtain m where m: "result_metric ml r = Inr m" by auto
  then have "m \<in> set ml" by (rule result_metric_mem)
  with Cons.prems(2) obtain vs where vs: "map_of res m = Some vs" by blast
  define res1 where "res1 = AList.update m (vs @ Values r) res"
  have step: "extend_result ml r res = Inr res1"
    by (simp add: extend_result_def m vs res1_def)
  have dom1: "set ml \<subseteq> dom (map_of res1)"
    using Cons.prems(2) by (auto simp: res1_def update_conv')
  have wf: "\<forall>r \<in> set rs. \<exists>m. result_metric ml r = Inr m"
    using Cons.prems(1) by simp
  from Cons.IH [OF wf dom1] obtain res' where
    r1: "extend_results ml rs res1 = Inr res'" and
    r2: "\<And>k. map_of res' k =
              map_option (\<lambda>vs. vs @ concat (map Values
                 (filter (\<lambda>r. result_metric ml r = Inr k) rs))) (map_of res1 k)" and
    r3: "distinct (map fst res1) \<longrightarrow> distinct (map fst res')"
    by blast
  have a: "extend_results ml (r # rs) res = Inr res'"
    by (simp add: step r1)
  have b: "map_of res' k =
              map_option (\<lambda>vs. vs @ concat (map Values
                 (filter (\<lambda>r. result_metric ml r = Inr k) (r # rs)))) (map_of res k)" for k
  proof (cases "k = m")
    case True
    then show ?thesis by (simp add: r2 res1_def update_conv' m vs)
  next
    case False
    then show ?thesis by (simp add: r2 res1_def update_conv' m)
  qed
  have c: "distinct (map fst res) \<longrightarrow> distinct (map fst res')"
    using r3 by (simp add: res1_def distinct_update)
  from a b c show ?case by blast
qed


lemma collect_pages_ok:
  assumes "query_succeeds ml p"
  shows "\<exists>res. collect_pages ml p = Inr res \<and> distinct (map fst res) \<and>
           (\<forall>m \<in> set ml. map_of res m = Some (samples_of ml m (pages p)))"
proof -
  from assms have f: "failure p = None"
    and nl: "\<forall>r \<in> set (concat (pages p)). \<not> isl (result_metric ml r)"
    by (simp_all add: query_succeeds_def list_all_iff)
  have wf: "\<forall>r \<in> set (concat (pages p)). \<exists>m. result_metric ml r = Inr m"
  proof
    fix r assume "r \<in> set (concat (pages p))"
    with nl have "\<not> isl (result_metric ml r)" by blast
    then show "\<exists>m. result_metric ml r = Inr m" by (cases "result_metric ml r") auto
  qed
  have dom: "set ml \<subseteq> dom (map_of (init_results ml))"
    by (auto simp: map_of_init_results)
  from extend_results_ok [OF wf dom] obtain res where
    r1: "extend_results ml (concat (pages p)) (init_results ml) = Inr res" and
    r2: "\<And>k. map_of res k =
              map_option (\<lambda>vs. vs @ concat (map Values
                 (filter (\<lambda>r. result_metric ml r = Inr k) (concat (pages p)))))
                (map_of (init_results ml) k)" and
    r3: "distinct (map fst (init_results ml)) \<longrightarrow> distinct (map fst res)"
    by blast
  have a: "collect_pages ml p = Inr res"
    by (simp add: collect_pages_def extend_pages_concat r1 f)
  have b: "distinct (map fst res)"
    using r3 distinct_init_results by blast
  have c: "\<forall>m \<in> set ml. map_of res m = Some (samples_of ml m (pages p))"
    by (simp add: r2 map_of_init_results samples_of_def)
  from a b c show ?thesis by blast
qed


lemma field_key_eq:
  "length s = 4 \<Longrightarrow> length t = 4 \<Longrightarrow> (m @ s = m' @ t) = (m = m' \<and> s = t)"
  by simp

lemma map_of_update_min_max_avg:
  "map_of (update_min_max_avg m (a, b, c) r) =
     (map_of r)(m @ '' Min'' \<mapsto> CStr a, m @ '' Max'' \<mapsto> CStr b, m @ '' Avg'' \<mapsto> CStr c)"
  by (simp add: update_min_max_avg_def update_conv')

lemma update_min_max_avg_other:
  assumes "m \<noteq> m'" and "length s = 4"
  shows "map_of (update_min_max_avg m' t r) (m @ s) = map_of r (m @ s)"
proof -
  obtain a b c where t: "t = (a, b, c)" by (cases t)
  have "m @ s \<noteq> m' @ '' Min''" "m @ s \<noteq> m' @ '' Max''" "m @ s \<noteq> m' @ '' Avg''"
    using assms by (simp_all add: field_key_eq)
  then show ?thesis by (simp add: t map_of_update_min_max_avg)
qed

lemma update_min_max_avg_same:
  "map_of (update_min_max_avg m (a, b, c) r) (m @ '' Min'') = Some (CStr a)"
  "map_of (update_min_max_avg m (a, b, c) r) (m @ '' Max'') = Some (CStr b)"
  "map_of (update_min_max_avg m (a, b, c) r) (m @ '' Avg'') = Some (CStr c)"
  by (simp_all add: map_of_update_min_max_avg)

lemma update_min_max_avg_Name:
  "map_of (update_min_max_avg m t r) ''Name'' = map_of r ''Name''"
proof -
  obtain a b c where t: "t = (a, b, c)" by (cases t)
  have ne: "''Name'' \<noteq> m @ s" if "length s = 4" "s \<noteq> ''Name''" for s
  proof
    assume eq: "''Name'' = m @ s"
    then have "length ''Name'' = length (m @ s)" by (rule arg_cong)
    with that(1) have "m = []" by simp
    with eq that(2) show False by simp
  qed
  have "''Name'' \<noteq> m @ '' Min''" "''Name'' \<noteq> m @ '' Max''" "''Name'' \<noteq> m @ '' Avg''"
    by (rule ne; simp)+
  then show ?thesis by (simp add: t map_of_update_min_max_avg)
qed

lemma fold_fields_other:
  assumes "m \<notin> fst ` set res" and "length s = 4"
  shows "map_of (fold (\<lambda>(m, vs). update_min_max_avg m (g m vs)) res r) (m @ s) = map_of r (m @ s)"
  using assms(1)
proof (induction res arbitrary: r)
  case Nil
  show ?case by simp
next
  case (Cons x res)
  obtain m' vs where x: "x = (m', vs)" by (cases x)
  with Cons.prems have ne: "m \<noteq> m'" and rest: "m \<notin> fst ` set res" by auto
  have "map_of (fold (\<lambda>(m, vs). update_min_max_avg m (g m vs)) (x # res) r) (m @ s) =
        map_of (update_min_max_avg m' (g m' vs) r) (m @ s)"
    by (simp add: x Cons.IH [OF rest])
  also have "\<dots> = map_of r (m @ s)"
    by (rule update_min_max_avg_other [OF ne assms(2)])
  finally show ?case .
qed

lemma fold_fields:
  assumes "distinct (map fst res)" and "(m, vs) \<in> set res" and "g m vs = (a, b, c)"
  shows "map_of (fold (\<lambda>(m, vs). update_min_max_avg m (g m vs)) res r) (m @ '' Min'') = Some (CStr a) \<and>
         map_of (fold (\<lambda>(m, vs). update_min_max_avg m (g m vs)) res r) (m @ '' Max'') = Some (CStr b) \<and>
         map_of (fold (\<lambda>(m, vs). update_min_max_avg m (g m vs)) res r) (m @ '' Avg'') = Some (CStr c)"
  using assms(1,2)
proof (induction res arbitrary: r)
  case Nil
  then show ?case by simp
next
  case (Cons x res)
  obtain m' vs' where x: "x = (m', vs')" by (cases x)
  show ?case
  proof (cases "x = (m, vs)")
    case True
    with Cons.prems(1) have notin: "m \<notin> fst ` set res" by auto
    show ?thesis
      by (simp add: True fold_fields_other [OF notin] assms(3) update_min_max_avg_same)
  next
    case False
    with Cons.prems have d: "distinct (map fst res)" and mem: "(m, vs) \<in> set res" by auto
    from Cons.IH [OF d mem] show ?thesis by (simp add: x)
  qed
qed

lemma fold_fields_Name:
  "map_of (fold (\<lambda>(m, vs). update_min_max_avg m (g m vs)) res r) ''Name'' = map_of r ''Name''"
  by (induction res arbitrary: r) (auto simp: update_min_max_avg_Name)

lemma fold_error_Name:
  "map_of (fold (\<lambda>m. update_min_max_avg m t) ml r) ''Name'' = map_of r ''Name''"
  by (induction ml arbitrary: r) (auto simp: update_min_max_avg_Name)







text \<open>The fields of the row that the \<^verbatim>\<open>try\<close> block fills in, by the outcome of the query.\<close>

lemma metrics_row_fields:
  assumes "query_succeeds ml p" and "m \<in> set ml"
    and "reduce_values fmt m (samples_of ml m (pages p)) = (a, b, c)"
  shows "map_of (fst (metrics_row fmt name ml r p)) (m @ '' Min'') = Some (CStr a) \<and>
         map_of (fst (metrics_row fmt name ml r p)) (m @ '' Max'') = Some (CStr b) \<and>
         map_of (fst (metrics_row fmt name ml r p)) (m @ '' Avg'') = Some (CStr c)"
proof -
  from collect_pages_ok [OF assms(1)] obtain res where
    c: "collect_pages ml p = Inr res" and d: "distinct (map fst res)" and
    s: "\<forall>m \<in> set ml. map_of res m = Some (samples_of ml m (pages p))"
    by blast
  from s assms(2) have "map_of res m = Some (samples_of ml m (pages p))" by blast
  then have mem: "(m, samples_of ml m (pages p)) \<in> set res" by (rule map_of_SomeD)
  from fold_fields [OF d mem, of "reduce_values fmt", OF assms(3)]
  show ?thesis by (simp add: metrics_row_def c)
qed


lemma metrics_row_Name:
  "map_of (fst (metrics_row fmt name ml r p)) ''Name'' = map_of r ''Name''"
  by (simp add: metrics_row_def fold_fields_Name fold_error_Name split: sum.splits)

lemma fst_get_cloudwatch_metrics_with:
  "fst (get_cloudwatch_metrics_with fmt ns dims name ml cw) =
     fst (metrics_row fmt (py_str name) ml [(''Name'', name)]
            (get_metric_data cw (metric_data_queries ns dims ml)))"
  by (simp add: get_cloudwatch_metrics_with_def Let_def split: prod.splits)

lemma fst_ECS_get_cloudwatch_metrics:
  "fst (ECS_get_cloudwatch_metrics cluster sv cw) =
     fst (metrics_row ECS_format_metric_value sv ECS_METRICS []
            (get_metric_data cw (metric_data_queries ''AWS/ECS''
               [(''ClusterName'', CStr cluster), (''ServiceName'', CStr sv)] ECS_METRICS)))"
  by (simp add: ECS_get_cloudwatch_metrics_def Let_def split: prod.splits)


lemma nil_fields:
  assumes "query_succeeds ml p" and "m \<in> set ml" and "samples_of ml m (pages p) = []"
  shows "fields_are m ''Nil'' (fst (metrics_row fmt name ml r p))"
proof -
  have "reduce_values fmt m (samples_of ml m (pages p)) = (''Nil'', ''Nil'', ''Nil'')"
    by (simp add: assms(3))
  from metrics_row_fields [OF assms(1,2) this] show ?thesis
    by (simp add: fields_are_def)
qed




section \<open>Reports: properties\<close>

lemma metrics_row_events:
  "e \<in> set (snd (metrics_row fmt name ml r p)) \<Longrightarrow> \<not> is_write e \<and> \<not> is_query e"
  by (auto simp: metrics_row_def split: sum.splits)

lemma snd_get_cloudwatch_metrics_with:
  "snd (get_cloudwatch_metrics_with fmt ns dims name ml cw) =
     [Print (''Fetching CloudWatch metrics for '' @ py_str name @ ''...''),
      MetricQuery (metric_data_queries ns dims ml)] @
     snd (metrics_row fmt (py_str name) ml [(''Name'', name)]
            (get_metric_data cw (metric_data_queries ns dims ml)))"
  by (simp add: get_cloudwatch_metrics_with_def Let_def split: prod.splits)

lemma get_cloudwatch_metrics_with_no_write:
  "e \<in> set (snd (get_cloudwatch_metrics_with fmt ns dims name ml cw)) \<Longrightarrow> \<not> is_write e"
  by (auto simp: snd_get_cloudwatch_metrics_with dest: metrics_row_events)

lemma get_cloudwatch_metrics_with_Name:
  "map_of (fst (get_cloudwatch_metrics_with fmt ns dims name ml cw)) ''Name'' = Some name"
  by (simp add: fst_get_cloudwatch_metrics_with metrics_row_Name)

lemma snd_EC2_metrics_list_Cons:
  "snd (EC2_metrics_list cw (d # ds)) =
     (case map_of d ''Instance ID'' of
        None \<Rightarrow> []
      | Some instance_id \<Rightarrow>
          (case map_of d ''Name'' of
             None \<Rightarrow> []
           | Some name \<Rightarrow>
               snd (EC2_get_cloudwatch_metrics ''AWS/EC2'' [(''InstanceId'', instance_id)]
                      name EC2_METRICS cw) @
               snd (EC2_metrics_list cw ds)))"
  by (simp split: option.splits prod.splits)

lemma EC2_metrics_list_no_write:
  "e \<in> set (snd (EC2_metrics_list cw ds)) \<Longrightarrow> \<not> is_write e"
proof (induction ds)
  case Nil
  then show ?case by simp
next
  case (Cons d ds)
  from Cons.prems have
    "e \<in> set (snd (EC2_metrics_list cw ds)) \<or>
     (\<exists>i n. e \<in> set (snd (EC2_get_cloudwatch_metrics ''AWS/EC2'' [(''InstanceId'', i)]
                             n EC2_METRICS cw)))"
    unfolding snd_EC2_metrics_list_Cons by (auto split: option.splits)
  then show ?case
  proof
    assume "e \<in> set (snd (EC2_metrics_list cw ds))"
    then show ?thesis by (rule Cons.IH)
  next
    assume "\<exists>i n. e \<in> set (snd (EC2_get_cloudwatch_metrics ''AWS/EC2'' [(''InstanceId'', i)]
                             n EC2_METRICS cw))"
    then show ?thesis
      by (auto simp: EC2_get_cloudwatch_metrics_def dest: get_cloudwatch_metrics_with_no_write)
  qed
qed

lemma EC2_metrics_list_ok:
  assumes "\<forall>d \<in> set ds. map_of d ''Instance ID'' \<noteq> None \<and> map_of d ''Name'' \<noteq> None"
  shows "\<exists>ms. fst (EC2_metrics_list cw ds) = Inr ms \<and> length ms = length ds \<and>
           (\<forall>i < length ds. map_of (ms ! i) ''Name'' = map_of (ds ! i) ''Name'')"
  using assms
proof (induction ds)
  case Nil
  show ?case by simp
next
  case (Cons d ds)
  from Cons.prems obtain iid name where
    k1: "map_of d ''Instance ID'' = Some iid" and k2: "map_of d ''Name'' = Some name"
    by auto
  from Cons.prems have
    "\<forall>d \<in> set ds. map_of d ''Instance ID'' \<noteq> None \<and> map_of d ''Name'' \<noteq> None"
    by simp
  from Cons.IH [OF this] obtain ms where
    ms1: "fst (EC2_metrics_list cw ds) = Inr ms" and ms2: "length ms = length ds" and
    ms3: "\<forall>i < length ds. map_of (ms ! i) ''Name'' = map_of (ds ! i) ''Name''"
    by blast
  define m where
    "m = fst (EC2_get_cloudwatch_metrics ''AWS/EC2'' [(''InstanceId'', iid)] name EC2_METRICS cw)"
  obtain r evs where rest: "EC2_metrics_list cw ds = (r, evs)"
    by (cases "EC2_metrics_list cw ds")
  with ms1 have r: "r = Inr ms" by simp
  have f: "fst (EC2_metrics_list cw (d # ds)) = Inr (m # ms)"
    by (simp add: k1 k2 rest r m_def split: prod.splits)
  have n: "map_of m ''Name'' = Some name"
    by (simp add: m_def EC2_get_cloudwatch_metrics_def get_cloudwatch_metrics_with_Name)
  have "\<forall>i < length (d # ds). map_of ((m # ms) ! i) ''Name'' = map_of ((d # ds) ! i) ''Name''"
  proof (intro allI impI)
    fix i assume i: "i < length (d # ds)"
    show "map_of ((m # ms) ! i) ''Name'' = map_of ((d # ds) ! i) ''Name''"
    proof (cases i)
      case 0
      then show ?thesis by (simp add: n k2)
    next
      case (Suc j)
      with i ms3 show ?thesis by simp
    qed
  qed
  with f ms2 show ?case by auto
qed

lemma snd_RDS_metrics_list_Cons:
  "snd (RDS_metrics_list cw (d # ds)) =
     (case map_of d ''DBInstanceIdentifier'' of
        None \<Rightarrow> []
      | Some identifier \<Rightarrow>
          snd (RDS_get_cloudwatch_metrics ''AWS/RDS'' [(''DBInstanceIdentifier'', identifier)]
                 identifier RDS_METRICS cw) @
          snd (RDS_metrics_list cw ds))"
  by (simp split: option.splits prod.splits)

lemma RDS_metrics_list_no_write:
  "e \<in> set (snd (RDS_metrics_list cw ds)) \<Longrightarrow> \<not> is_write e"
proof (induction ds)
  case Nil
  then show ?case by simp
next
  case (Cons d ds)
  from Cons.prems have
    "e \<in> set (snd (RDS_metrics_list cw ds)) \<or>
     (\<exists>i. e \<in> set (snd (RDS_get_cloudwatch_metrics ''AWS/RDS'' [(''DBInstanceIdentifier'', i)]
                           i RDS_METRICS cw)))"
    unfolding snd_RDS_metrics_list_Cons by (auto split: option.splits)
  then show ?case
  proof
    assume "e \<in> set (snd (RDS_metrics_list cw ds))"
    then show ?thesis by (rule Cons.IH)
  next
    assume "\<exists>i. e \<in> set (snd (RDS_get_cloudwatch_metrics ''AWS/RDS''
                           [(''DBInstanceIdentifier'', i)] i RDS_METRICS cw))"
    then show ?thesis
      by (auto simp: RDS_get_cloudwatch_metrics_def dest: get_cloudwatch_metrics_with_no_write)
  qed
qed

lemma RDS_metrics_list_ok:
  assumes "\<forall>d \<in> set ds. map_of d ''DBInstanceIdentifier'' \<noteq> None"
  shows "\<exists>ms. fst (RDS_metrics_list cw ds) = Inr ms \<and> length ms = length ds \<and>
           (\<forall>i < length ds. map_of (ms ! i) ''Name'' = map_of (ds ! i) ''DBInstanceIdentifier'')"
  using assms
proof (induction ds)
  case Nil
  show ?case by simp
next
  case (Cons d ds)
  from Cons.prems obtain ident where k1: "map_of d ''DBInstanceIdentifier'' = Some ident"
    by auto
  from Cons.prems have "\<forall>d \<in> set ds. map_of d ''DBInstanceIdentifier'' \<noteq> None"
    by simp
  from Cons.IH [OF this] obtain ms where
    ms1: "fst (RDS_metrics_list cw ds) = Inr ms" and ms2: "length ms = length ds" and
    ms3: "\<forall>i < length ds. map_of (ms ! i) ''Name'' = map_of (ds ! i) ''DBInstanceIdentifier''"
    by blast
  define m where
    "m = fst (RDS_get_cloudwatch_metrics ''AWS/RDS'' [(''DBInstanceIdentifier'', ident)]
                ident RDS_METRICS cw)"
  obtain r evs where rest: "RDS_metrics_list cw ds = (r, evs)"
    by (cases "RDS_metrics_list cw ds")
  with ms1 have r: "r = Inr ms" by simp
  have f: "fst (RDS_metrics_list cw (d # ds)) = Inr (m # ms)"
    by (simp add: k1 rest r m_def split: prod.splits)
  have n: "map_of m ''Name'' = Some ident"
    by (simp add: m_def RDS_get_cloudwatch_metrics_def get_cloudwatch_metrics_with_Name)
  have "\<forall>i < length (d # ds).
          map_of ((m # ms) ! i) ''Name'' = map_of ((d # ds) ! i) ''DBInstanceIdentifier''"
  proof (intro allI impI)
    fix i assume i: "i < length (d # ds)"
    show "map_of ((m # ms) ! i) ''Name'' = map_of ((d # ds) ! i) ''DBInstanceIdentifier''"
    proof (cases i)
      case 0
      then show ?thesis by (simp add: n k1)
    next
      case (Suc j)
      with i ms3 show ?thesis by simp
    qed
  qed
  with f ms2 show ?case by auto
qed

lemma instance_details_keys:
  "instance_details smap imap i alarms = Inr d \<Longrightarrow>
     map_of d ''Name'' = Some (CStr (get_instance_name i)) \<and>
     map_of d ''Instance ID'' = Some (cell_of (InstanceId i)) \<and>
     map_of d ''Instance state'' = Some (cell_of (StateName i))"
  by (auto simp: instance_details_def split: option.splits)

lemma details_of_instances_rows:
  "details_of_instances cw smap imap insts = Inr ds \<Longrightarrow>
     length ds = length insts \<and>
     (\<forall>d \<in> set ds. map_of d ''Instance ID'' \<noteq> None \<and> map_of d ''Name'' \<noteq> None) \<and>
     map (\<lambda>d. (map_of d ''Instance ID'', map_of d ''Instance state'')) ds =
       map (\<lambda>i. (Some (cell_of (InstanceId i)), Some (cell_of (StateName i)))) insts"
proof (induction insts arbitrary: ds)
  case Nil
  then show ?case by simp
next
  case (Cons i rest)
  from Cons.prems obtain alarms d ds' where
    d: "instance_details smap imap i alarms = Inr d" and
    r: "details_of_instances cw smap imap rest = Inr ds'" and
    ds: "ds = d # ds'"
    by (auto split: sum.splits)
  from instance_details_keys [OF d] Cons.IH [OF r] show ?case
    by (simp add: ds)
qed

lemma get_ec2_instance_details_rows:
  assumes "fst (get_ec2_instance_details c cw) = Inr ds"
  shows "\<exists>statuses addresses.
           details_of_instances cw (status_map statuses) (ip_map addresses)
             (concat (concat (pages (describe_instances c state_filter)))) = Inr ds"
  using assms
  by (auto simp: get_ec2_instance_details_def Let_def split: sum.splits option.splits)

lemma get_ec2_instance_details_keys:
  assumes "fst (get_ec2_instance_details c cw) = Inr ds"
  shows "\<forall>d \<in> set ds. map_of d ''Instance ID'' \<noteq> None \<and> map_of d ''Name'' \<noteq> None"
proof -
  from get_ec2_instance_details_rows [OF assms] obtain statuses addresses where
    "details_of_instances cw (status_map statuses) (ip_map addresses)
       (concat (concat (pages (describe_instances c state_filter)))) = Inr ds"
    by blast
  from details_of_instances_rows [OF this] show ?thesis by blast
qed

lemma get_ec2_instance_details_events:
  "e \<in> set (snd (get_ec2_instance_details c cw)) \<Longrightarrow> \<not> is_write e \<and> \<not> is_query e"
  by (auto simp: get_ec2_instance_details_def Let_def split: sum.splits option.splits)

lemma get_rds_instance_details_events:
  "e \<in> set (snd (get_rds_instance_details c)) \<Longrightarrow> \<not> is_write e \<and> \<not> is_query e"
  by (auto simp: get_rds_instance_details_def Let_def split: option.splits)

lemma get_rds_instance_details_keys:
  assumes "fst (get_rds_instance_details c) = Inr ds"
  shows "\<forall>d \<in> set ds. map_of d ''DBInstanceIdentifier'' \<noteq> None"
  using assms
  by (auto simp: get_rds_instance_details_def Let_def db_details_def split: option.splits)

lemma export_report_write:
  "WriteExcel f t \<in> set (export_report env dm em file tables) \<Longrightarrow> f = file \<and> t = tables"
  by (auto simp: export_report_def unexpected_def split: option.splits)

lemma export_report_no_query:
  "e \<in> set (export_report env dm em file tables) \<Longrightarrow> \<not> is_query e"
  by (auto simp: export_report_def unexpected_def split: option.splits)

text \<open>The EC2 report neither queries metrics nor writes a file unless the inventory
  listing returned at least one row.\<close>

lemma EC2_main_no_fetch:
  assumes "fst (get_ec2_instance_details (ec2 env) (cloudwatch env)) = Inl e \<or>
           fst (get_ec2_instance_details (ec2 env) (cloudwatch env)) = Inr []"
  shows "\<forall>x \<in> set (snd (EC2_main env)). \<not> is_write x \<and> \<not> is_query x"
proof -
  obtain r ev where g: "get_ec2_instance_details (ec2 env) (cloudwatch env) = (r, ev)"
    by (cases "get_ec2_instance_details (ec2 env) (cloudwatch env)")
  have ev: "\<forall>x \<in> set ev. \<not> is_write x \<and> \<not> is_query x"
    using get_ec2_instance_details_events [of _ "ec2 env" "cloudwatch env"] by (simp add: g)
  from assms g have r: "r = Inl e \<or> r = Inr []" by simp
  show ?thesis
    using r ev by (cases "session_error env") (auto simp: EC2_main_def g unexpected_def)
qed

lemma RDS_main_no_fetch:
  assumes "fst (get_rds_instance_details (rds env)) = Inl e \<or>
           fst (get_rds_instance_details (rds env)) = Inr []"
  shows "\<forall>x \<in> set (snd (RDS_main env)). \<not> is_write x \<and> \<not> is_query x"
proof -
  obtain r ev where g: "get_rds_instance_details (rds env) = (r, ev)"
    by (cases "get_rds_instance_details (rds env)")
  have ev: "\<forall>x \<in> set ev. \<not> is_write x \<and> \<not> is_query x"
    using get_rds_instance_details_events [of _ "rds env"] by (simp add: g)
  from assms g have r: "r = Inl e \<or> r = Inr []" by simp
  show ?thesis
    using r ev by (cases "session_error env") (auto simp: RDS_main_def g unexpected_def)
qed

text \<open>What a spreadsheet written by the EC2 report holds.\<close>

lemma EC2_main_write:
  assumes "WriteExcel f t \<in> set (snd (EC2_main env))"
  shows "\<exists>ds ms. fst (get_ec2_instance_details (ec2 env) (cloudwatch env)) = Inr ds \<and>
           fst (EC2_metrics_list (cloudwatch env) ds) = Inr ms \<and>
           t = [(ds, 0), (ms, length ds + 3)]"
proof -
  obtain r ev where g: "get_ec2_instance_details (ec2 env) (cloudwatch env) = (r, ev)"
    by (cases "get_ec2_instance_details (ec2 env) (cloudwatch env)")
  have nev: "WriteExcel f t \<notin> set ev"
    using get_ec2_instance_details_events [of "WriteExcel f t" "ec2 env" "cloudwatch env"]
    by (auto simp: g)
  show ?thesis
  proof (cases "session_error env")
    case (Some x)
    with assms show ?thesis by (simp add: EC2_main_def unexpected_def)
  next
    case None
    show ?thesis
    proof (cases r)
      case (Inl x)
      with assms None g nev show ?thesis by (simp add: EC2_main_def unexpected_def)
    next
      case rds: (Inr ds)
      obtain r' ev' where m: "EC2_metrics_list (cloudwatch env) ds = (r', ev')"
        by (cases "EC2_metrics_list (cloudwatch env) ds")
      have nev': "WriteExcel f t \<notin> set ev'"
        using EC2_metrics_list_no_write [of "WriteExcel f t" "cloudwatch env" ds]
        by (auto simp: m)
      show ?thesis
      proof (cases "ds = []")
        case True
        with assms None g rds nev show ?thesis by (simp add: EC2_main_def)
      next
        case False
        show ?thesis
        proof (cases r')
          case (Inl x)
          with assms None g rds nev nev' m False show ?thesis
            by (simp add: EC2_main_def unexpected_def)
        next
          case rms: (Inr ms)
          from assms None g rds nev nev' m False rms
          have "WriteExcel f t \<in> set (export_report env rocket cross_mark
                  (''EC2_Report_'' @ timestamp env @ ''.xlsx'')
                  [(ds, 0), (ms, length ds + 3)])"
            by (simp add: EC2_main_def)
          from export_report_write [OF this] have "t = [(ds, 0), (ms, length ds + 3)]"
            by simp
          with g rds m rms show ?thesis by simp
        qed
      qed
    qed
  qed
qed

lemma RDS_main_write:
  assumes "WriteExcel f t \<in> set (snd (RDS_main env))"
  shows "\<exists>ds ms. fst (get_rds_instance_details (rds env)) = Inr ds \<and>
           fst (RDS_metrics_list (cloudwatch env) ds) = Inr ms \<and>
           t = [(ds, 0), (ms, length ds + 3)]"
proof -
  obtain r ev where g: "get_rds_instance_details (rds env) = (r, ev)"
    by (cases "get_rds_instance_details (rds env)")
  have nev: "WriteExcel f t \<notin> set ev"
    using get_rds_instance_details_events [of "WriteExcel f t" "rds env"]
    by (auto simp: g)
  show ?thesis
  proof (cases "session_error env")
    case (Some x)
    with assms show ?thesis by (simp add: RDS_main_def unexpected_def)
  next
    case None
    show ?thesis
    proof (cases r)
      case (Inl x)
      with assms None g nev show ?thesis by (simp add: RDS_main_def unexpected_def)
    next
      case rds: (Inr ds)
      obtain r' ev' where m: "RDS_metrics_list (cloudwatch env) ds = (r', ev')"
        by (cases "RDS_metrics_list (cloudwatch env) ds")
      have nev': "WriteExcel f t \<notin> set ev'"
        using RDS_metrics_list_no_write [of "WriteExcel f t" "cloudwatch env" ds]
        by (auto simp: m)
      show ?thesis
      proof (cases "ds = []")
        case True
        with assms None g rds nev show ?thesis by (simp add: RDS_main_def)
      next
        case False
        show ?thesis
        proof (cases r')
          case (Inl x)
          with assms None g rds nev nev' m False show ?thesis
            by (simp add: RDS_main_def unexpected_def)
        next
          case rms: (Inr ms)
          from assms None g rds nev nev' m False rms
          have "WriteExcel f t \<in> set (export_report env garbled_rocket garbled_cross_mark
                  (''RDS_Report_'' @ timestamp env @ ''.xlsx'')
                  [(ds, 0), (ms, length ds + 3)])"
            by (simp add: RDS_main_def)
          from export_report_write [OF this] have "t = [(ds, 0), (ms, length ds + 3)]"
            by simp
          with g rds m rms show ?thesis by simp
        qed
      qed
    qed
  qed
qed

text \<open>The EC2 report writes its spreadsheet whenever the session, the listing and the
  writer succeed, whatever the metric queries do.\<close>

lemma EC2_main_exports:
  assumes "session_error env = None"
    and "fst (get_ec2_instance_details (ec2 env) (cloudwatch env)) = Inr ds"
    and "ds \<noteq> []"
    and "\<forall>f t. write_excel env f t = None"
  shows "\<exists>ms. length ms = length ds \<and>
           WriteExcel (''EC2_Report_'' @ timestamp env @ ''.xlsx'')
             [(ds, 0), (ms, length ds + 3)] \<in> set (snd (EC2_main env))"
proof -
  obtain r ev where g: "get_ec2_instance_details (ec2 env) (cloudwatch env) = (r, ev)"
    by (cases "get_ec2_instance_details (ec2 env) (cloudwatch env)")
  with assms(2) have r: "r = Inr ds" by simp
  from EC2_metrics_list_ok [OF get_ec2_instance_details_keys [OF assms(2)], of "cloudwatch env"]
  obtain ms where ms: "fst (EC2_metrics_list (cloudwatch env) ds) = Inr ms"
    and len: "length ms = length ds" by blast
  obtain r' ev' where m: "EC2_metrics_list (cloudwatch env) ds = (r', ev')"
    by (cases "EC2_metrics_list (cloudwatch env) ds")
  with ms have r': "r' = Inr ms" by simp
  have "WriteExcel (''EC2_Report_'' @ timestamp env @ ''.xlsx'')
          [(ds, 0), (ms, length ds + 3)] \<in> set (snd (EC2_main env))"
    by (simp add: EC2_main_def assms(1,3,4) g r m r' export_report_def)
  with len show ?thesis by blast
qed


text \<open>The ECS report has described no service, and so issued no metric query, when its
  listing returns no row.\<close>

lemma ecs_services_empty:
  "fst (ecs_services cw cluster_name svs) = [] \<Longrightarrow> snd (ecs_services cw cluster_name svs) = []"
  by (cases svs) (auto split: prod.splits)

lemma ecs_batches_empty:
  "fst (ecs_batches client cw arn bs) = Inr [] \<Longrightarrow> snd (ecs_batches client cw arn bs) = []"
proof (induction bs)
  case Nil
  show ?case by simp
next
  case (Cons b bs)
  show ?case
  proof (cases "describe_services client arn b")
    case (Inl e)
    with Cons.prems show ?thesis by simp
  next
    case svs: (Inr services_desc)
    obtain rows ev where s: "ecs_services cw (last_segment arn) services_desc = (rows, ev)"
      by (cases "ecs_services cw (last_segment arn) services_desc")
    obtain r evs where t: "ecs_batches client cw arn bs = (r, evs)"
      by (cases "ecs_batches client cw arn bs")
    show ?thesis
    proof (cases r)
      case (Inl e)
      with Cons.prems svs s t show ?thesis by simp
    next
      case r: (Inr rows')
      from Cons.prems svs s t r have e: "rows = []" "rows' = []" by simp_all
      from ecs_services_empty [of cw "last_segment arn" services_desc] s e(1)
      have "ev = []" by simp
      moreover from Cons.IH t r e(2) have "evs = []" by simp
      ultimately show ?thesis by (simp add: svs s t)
    qed
  qed
qed

lemma ecs_pages_empty:
  "fst (ecs_pages client cw arn ps) = Inr [] \<Longrightarrow> snd (ecs_pages client cw arn ps) = []"
proof (induction ps)
  case Nil
  show ?case by simp
next
  case (Cons p ps)
  obtain r ev where b: "ecs_batches client cw arn (batches p) = (r, ev)"
    by (cases "ecs_batches client cw arn (batches p)")
  obtain r' evs where t: "ecs_pages client cw arn ps = (r', evs)"
    by (cases "ecs_pages client cw arn ps")
  show ?case
  proof (cases r)
    case (Inl e)
    with Cons.prems b show ?thesis by simp
  next
    case r: (Inr rows)
    show ?thesis
    proof (cases r')
      case (Inl e)
      with Cons.prems b t r show ?thesis by simp
    next
      case r': (Inr rows')
      from Cons.prems b t r r' have e: "rows = []" "rows' = []" by simp_all
      from ecs_batches_empty [of client cw arn "batches p"] b r e(1)
      have "ev = []" by simp
      moreover from Cons.IH t r' e(2) have "evs = []" by simp
      ultimately show ?thesis by (simp add: b t r r')
    qed
  qed
qed

lemma ecs_clusters_empty:
  "fst (ecs_clusters client cw arns) = Inr [] \<Longrightarrow> snd (ecs_clusters client cw arns) = []"
proof (induction arns)
  case Nil
  show ?case by simp
next
  case (Cons arn arns)
  obtain r ev where b:
    "ecs_pages client cw arn (pages (list_services client arn)) = (r, ev)"
    by (cases "ecs_pages client cw arn (pages (list_services client arn))")
  obtain r' evs where t: "ecs_clusters client cw arns = (r', evs)"
    by (cases "ecs_clusters client cw arns")
  show ?case
  proof (cases r)
    case (Inl e)
    with Cons.prems b show ?thesis by (simp add: Let_def)
  next
    case r: (Inr rows)
    show ?thesis
    proof (cases "failure (list_services client arn)")
      case (Some e)
      with Cons.prems b r show ?thesis by (simp add: Let_def)
    next
      case None
      show ?thesis
      proof (cases r')
        case (Inl e)
        with Cons.prems b t r None show ?thesis by (simp add: Let_def)
      next
        case r': (Inr rows')
        from Cons.prems b t r r' None have e: "rows = []" "rows' = []"
          by (simp_all add: Let_def)
        from ecs_pages_empty [of client cw arn "pages (list_services client arn)"] b r e(1)
        have "ev = []" by simp
        moreover from Cons.IH t r' e(2) have "evs = []" by simp
        ultimately show ?thesis by (simp add: Let_def b t r r' None)
      qed
    qed
  qed
qed

lemma get_ecs_report_data_empty:
  assumes "fst (get_ecs_report_data client cw) = Inr []"
  shows "\<forall>x \<in> set (snd (get_ecs_report_data client cw)). \<not> is_write x \<and> \<not> is_query x"
proof (cases "list_clusters client")
  case (Inl e)
  with assms show ?thesis by (simp add: get_ecs_report_data_def)
next
  case arns: (Inr cluster_arns)
  obtain r ev where c: "ecs_clusters client cw cluster_arns = (r, ev)"
    by (cases "ecs_clusters client cw cluster_arns")
  show ?thesis
  proof (cases r)
    case (Inl e)
    with assms arns c show ?thesis by (simp add: get_ecs_report_data_def)
  next
    case r: (Inr rows)
    from assms arns c r have e: "rows = []" by (simp add: get_ecs_report_data_def)
    from ecs_clusters_empty [of client cw cluster_arns] c r e have "ev = []" by simp
    then show ?thesis by (simp add: get_ecs_report_data_def arns c r)
  qed
qed

lemma ECS_main_no_fetch:
  assumes "fst (get_ecs_report_data (ecs env) (cloudwatch env)) = Inr []"
  shows "\<forall>x \<in> set (snd (ECS_main env)). \<not> is_write x \<and> \<not> is_query x"
proof -
  obtain r ev where g: "get_ecs_report_data (ecs env) (cloudwatch env) = (r, ev)"
    by (cases "get_ecs_report_data (ecs env) (cloudwatch env)")
  have ev: "\<forall>x \<in> set ev. \<not> is_write x \<and> \<not> is_query x"
    using get_ecs_report_data_empty [OF assms] by (simp add: g)
  from assms g have r: "r = Inr []" by simp
  show ?thesis
    using r ev by (cases "session_error env") (auto simp: ECS_main_def g unexpected_def)
qed

section \<open>The claims about aggregation and the reports\<close>



text \<open>
  C3. When the metric query of a resource succeeds and a requested metric has no sample,
  the three derived fields of that metric hold the sentinel \<open>Nil\<close>, in the EC2, the RDS and
  the ECS report.
\<close>

theorem no_data_sentinel:
  assumes "p = get_metric_data cw (metric_data_queries ns dims ml)"
    and "q = get_metric_data cw (metric_data_queries ''AWS/ECS''
               [(''ClusterName'', CStr cluster), (''ServiceName'', CStr sv)] ECS_METRICS)"
  shows
   "(query_succeeds ml p \<and> m \<in> set ml \<and> samples_of ml m (pages p) = [] \<longrightarrow>
       fields_are m ''Nil'' (fst (EC2_get_cloudwatch_metrics ns dims name ml cw)) \<and>
       fields_are m ''Nil'' (fst (RDS_get_cloudwatch_metrics ns dims name ml cw))) \<and>
    (query_succeeds ECS_METRICS q \<and> m \<in> set ECS_METRICS \<and>
     samples_of ECS_METRICS m (pages q) = [] \<longrightarrow>
       fields_are m ''Nil'' (fst (ECS_get_cloudwatch_metrics cluster sv cw)))"
proof -
  have a: "query_succeeds ml p \<and> m \<in> set ml \<and> samples_of ml m (pages p) = [] \<longrightarrow>
       fields_are m ''Nil'' (fst (EC2_get_cloudwatch_metrics ns dims name ml cw)) \<and>
       fields_are m ''Nil'' (fst (RDS_get_cloudwatch_metrics ns dims name ml cw))"
    by (simp add: EC2_get_cloudwatch_metrics_def RDS_get_cloudwatch_metrics_def
          fst_get_cloudwatch_metrics_with assms(1) [symmetric] nil_fields)
  have b: "query_succeeds ECS_METRICS q \<and> m \<in> set ECS_METRICS \<and>
     samples_of ECS_METRICS m (pages q) = [] \<longrightarrow>
       fields_are m ''Nil'' (fst (ECS_get_cloudwatch_metrics cluster sv cw))"
    by (simp add: fst_ECS_get_cloudwatch_metrics assms(2) [symmetric] nil_fields)
  show ?thesis by (rule conjI [OF a b])
qed

theorem no_data_sentinel_witness:
  "query_succeeds EC2_METRICS
     (get_metric_data example_cloudwatch
        (metric_data_queries ''AWS/EC2'' [(''InstanceId'', CStr ''i-1'')] EC2_METRICS)) \<and>
   samples_of EC2_METRICS ''CPUCreditUsage'' example_pages = [] \<and>
   fields_are ''CPUCreditUsage'' ''Nil''
     (fst (EC2_get_cloudwatch_metrics ''AWS/EC2'' [(''InstanceId'', CStr ''i-1'')]
             (CStr ''web'') EC2_METRICS example_cloudwatch))"
proof -
  define p where "p = get_metric_data example_cloudwatch
        (metric_data_queries ''AWS/EC2'' [(''InstanceId'', CStr ''i-1'')] EC2_METRICS)"
  have pp: "pages p = example_pages" by (simp add: p_def example_cloudwatch_def)
  have h1: "query_succeeds EC2_METRICS p" unfolding p_def by code_simp
  have h2: "''CPUCreditUsage'' \<in> set EC2_METRICS" by (simp add: EC2_METRICS_def)
  have h3: "samples_of EC2_METRICS ''CPUCreditUsage'' example_pages = []"
    by code_simp
  note t = no_data_sentinel [where cw = example_cloudwatch and ns = "''AWS/EC2''"
      and dims = "[(''InstanceId'', CStr ''i-1'')]" and ml = EC2_METRICS
      and m = "''CPUCreditUsage''" and name = "CStr ''web''" and p = p, OF p_def refl]
  from t h1 h2 h3 pp have "fields_are ''CPUCreditUsage'' ''Nil''
     (fst (EC2_get_cloudwatch_metrics ''AWS/EC2'' [(''InstanceId'', CStr ''i-1'')]
             (CStr ''web'') EC2_METRICS example_cloudwatch))"
    by simp
  with h1 h3 show ?thesis by (simp add: p_def)
qed


lemma concat_concat_filter:
  "concat (concat (map (map (filter P)) fleet)) = filter P (concat (concat fleet))"
  by (induction fleet) (simp_all add: filter_concat)

lemma matches_state_filter:
  "matches_filters state_filter i \<longleftrightarrow>
     StateName i = Some ''running'' \<or> StateName i = Some ''stopped''"
  by (cases "StateName i") (auto simp: matches_filters_def state_filter_def)

lemma example_env_fields:
  "session_error example_env = None" "\<forall>f t. write_excel example_env f t = None"
  "timestamp example_env = ''2024-05-07_093000''" "cloudwatch example_env = failing_cloudwatch"
  "ec2 example_env = example_ec2" "rds example_env = example_rds"
  by (simp_all add: example_env_def)

lemma example_inventory:
  "\<exists>ds. fst (get_ec2_instance_details example_ec2 failing_cloudwatch) = Inr ds \<and>
        length ds = 2"
proof -
  have "\<not> isl (fst (get_ec2_instance_details example_ec2 failing_cloudwatch)) \<and>
        length (projr (fst (get_ec2_instance_details example_ec2 failing_cloudwatch))) = 2"
    by code_simp
  then show ?thesis
    by (cases "fst (get_ec2_instance_details example_ec2 failing_cloudwatch)") auto
qed



text \<open>
  C4. A spreadsheet that the EC2 or the RDS report writes holds the inventory table and,
  three rows below it, the metrics table; the two have the same number of rows, and the
  metrics row at each position carries under \<open>Name\<close> the key of the inventory row at that
  position: its \<open>Name\<close> in the EC2 report, its \<open>DBInstanceIdentifier\<close> in the RDS report.
\<close>

theorem metrics_rows_match_inventory_rows:
  "(WriteExcel f t \<in> set (snd (EC2_main env)) \<longrightarrow>
      (\<exists>details metrics.
         t = [(details, 0), (metrics, length details + 3)] \<and>
         length metrics = length details \<and>
         (\<forall>i < length details.
            map_of (details ! i) ''Name'' \<noteq> None \<and>
            map_of (metrics ! i) ''Name'' = map_of (details ! i) ''Name''))) \<and>
   (WriteExcel f t \<in> set (snd (RDS_main env)) \<longrightarrow>
      (\<exists>details metrics.
         t = [(details, 0), (metrics, length details + 3)] \<and>
         length metrics = length details \<and>
         (\<forall>i < length details.
            map_of (details ! i) ''DBInstanceIdentifier'' \<noteq> None \<and>
            map_of (metrics ! i) ''Name'' = map_of (details ! i) ''DBInstanceIdentifier'')))"
proof (intro conjI impI)
  assume "WriteExcel f t \<in> set (snd (EC2_main env))"
  from EC2_main_write [OF this] obtain ds ms where
    g: "fst (get_ec2_instance_details (ec2 env) (cloudwatch env)) = Inr ds" and
    m: "fst (EC2_metrics_list (cloudwatch env) ds) = Inr ms" and
    t: "t = [(ds, 0), (ms, length ds + 3)]"
    by blast
  note keys = get_ec2_instance_details_keys [OF g]
  from EC2_metrics_list_ok [OF keys, of "cloudwatch env"] m have
    len: "length ms = length ds" and
    names: "\<forall>i < length ds. map_of (ms ! i) ''Name'' = map_of (ds ! i) ''Name''"
    by auto
  have "\<forall>i < length ds. map_of (ds ! i) ''Name'' \<noteq> None"
    using keys by simp
  with t len names show "\<exists>details metrics.
         t = [(details, 0), (metrics, length details + 3)] \<and>
         length metrics = length details \<and>
         (\<forall>i < length details.
            map_of (details ! i) ''Name'' \<noteq> None \<and>
            map_of (metrics ! i) ''Name'' = map_of (details ! i) ''Name'')"
    by blast
next
  assume "WriteExcel f t \<in> set (snd (RDS_main env))"
  from RDS_main_write [OF this] obtain ds ms where
    g: "fst (get_rds_instance_details (rds env)) = Inr ds" and
    m: "fst (RDS_metrics_list (cloudwatch env) ds) = Inr ms" and
    t: "t = [(ds, 0), (ms, length ds + 3)]"
    by blast
  note keys = get_rds_instance_details_keys [OF g]
  from RDS_metrics_list_ok [OF keys, of "cloudwatch env"] m have
    len: "length ms = length ds" and
    names: "\<forall>i < length ds. map_of (ms ! i) ''Name'' = map_of (ds ! i) ''DBInstanceIdentifier''"
    by auto
  have "\<forall>i < length ds. map_of (ds ! i) ''DBInstanceIdentifier'' \<noteq> None"
    using keys by simp
  with t len names show "\<exists>details metrics.
         t = [(details, 0), (metrics, length details + 3)] \<and>
         length metrics = length details \<and>
         (\<forall>i < length details.
            map_of (details ! i) ''DBInstanceIdentifier'' \<noteq> None \<and>
            map_of (metrics ! i) ''Name'' = map_of (details ! i) ''DBInstanceIdentifier'')"
    by blast
qed

theorem metrics_rows_match_inventory_rows_witness:
  "\<exists>f t. WriteExcel f t \<in> set (snd (EC2_main example_env)) \<and>
     (\<exists>details metrics.
         t = [(details, 0), (metrics, length details + 3)] \<and>
         length metrics = length details \<and> length details = 2 \<and>
         (\<forall>i < length details.
            map_of (details ! i) ''Name'' \<noteq> None \<and>
            map_of (metrics ! i) ''Name'' = map_of (details ! i) ''Name''))"
proof -
  from example_inventory obtain ds where
    ds: "fst (get_ec2_instance_details (ec2 example_env) (cloudwatch example_env)) = Inr ds"
    and len: "length ds = 2" by (auto simp: example_env_fields)
  then have ne: "ds \<noteq> []" by auto
  from EC2_main_exports [OF example_env_fields(1) ds ne example_env_fields(2)]
  obtain ms where
    w: "WriteExcel (''EC2_Report_'' @ timestamp example_env @ ''.xlsx'')
          [(ds, 0), (ms, length ds + 3)] \<in> set (snd (EC2_main example_env))"
    by blast
  from metrics_rows_match_inventory_rows [of
      "''EC2_Report_'' @ timestamp example_env @ ''.xlsx''"
      "[(ds, 0), (ms, length ds + 3)]" example_env] w
  have "\<exists>details metrics.
         [(ds, 0), (ms, length ds + 3)] = [(details, 0), (metrics, length details + 3)] \<and>
         length metrics = length details \<and>
         (\<forall>i < length details.
            map_of (details ! i) ''Name'' \<noteq> None \<and>
            map_of (metrics ! i) ''Name'' = map_of (details ! i) ''Name'')"
    by blast
  then have "\<exists>details metrics.
         [(ds, 0), (ms, length ds + 3)] = [(details, 0), (metrics, length details + 3)] \<and>
         length metrics = length details \<and> length details = 2 \<and>
         (\<forall>i < length details.
            map_of (details ! i) ''Name'' \<noteq> None \<and>
            map_of (metrics ! i) ''Name'' = map_of (details ! i) ''Name'')"
    using len by auto
  with w show ?thesis by blast
qed

text \<open>
  C7. When the inventory listing of the EC2, of the RDS or of the ECS report returns no
  resource, the report returns normally, and it has issued no metric query and written
  no file; when the session was created, it has printed that no resource was found. (The
  listing of the ECS report is \<^verbatim>\<open>get_ecs_report_data\<close>, which queries the metrics of
  every service that it lists.)
\<close>

theorem empty_inventory_skips:
  "(fst (get_ec2_instance_details (ec2 env) (cloudwatch env)) = Inr [] \<longrightarrow>
      fst (EC2_main env) = Inr () \<and>
      (\<forall>x \<in> set (snd (EC2_main env)). \<not> is_query x \<and> \<not> is_write x) \<and>
      (session_error env = None \<longrightarrow>
         Print ''No EC2 instances found. Exiting.'' \<in> set (snd (EC2_main env)))) \<and>
   (fst (get_rds_instance_details (rds env)) = Inr [] \<longrightarrow>
      fst (RDS_main env) = Inr () \<and>
      (\<forall>x \<in> set (snd (RDS_main env)). \<not> is_query x \<and> \<not> is_write x) \<and>
      (session_error env = None \<longrightarrow>
         Print ''No RDS instances found. Exiting.'' \<in> set (snd (RDS_main env)))) \<and>
   (fst (get_ecs_report_data (ecs env) (cloudwatch env)) = Inr [] \<longrightarrow>
      fst (ECS_main env) = Inr () \<and>
      (\<forall>x \<in> set (snd (ECS_main env)). \<not> is_query x \<and> \<not> is_write x) \<and>
      (session_error env = None \<longrightarrow>
         Print ''No ECS services found. Exiting.'' \<in> set (snd (ECS_main env))))"
proof (intro conjI impI)
  show "fst (EC2_main env) = Inr ()" by (simp add: EC2_main_def)
next
  assume h: "fst (get_ec2_instance_details (ec2 env) (cloudwatch env)) = Inr []"
  from EC2_main_no_fetch [OF disjI2, OF h]
  show "\<forall>x \<in> set (snd (EC2_main env)). \<not> is_query x \<and> \<not> is_write x" by blast
next
  assume h: "fst (get_ec2_instance_details (ec2 env) (cloudwatch env)) = Inr []"
    and s: "session_error env = None"
  obtain r ev where g: "get_ec2_instance_details (ec2 env) (cloudwatch env) = (r, ev)"
    by (cases "get_ec2_instance_details (ec2 env) (cloudwatch env)")
  with h have "r = Inr []" by simp
  then show "Print ''No EC2 instances found. Exiting.'' \<in> set (snd (EC2_main env))"
    by (simp add: EC2_main_def s g)
next
  show "fst (RDS_main env) = Inr ()" by (simp add: RDS_main_def)
next
  assume h: "fst (get_rds_instance_details (rds env)) = Inr []"
  from RDS_main_no_fetch [OF disjI2, OF h]
  show "\<forall>x \<in> set (snd (RDS_main env)). \<not> is_query x \<and> \<not> is_write x" by blast
next
  assume h: "fst (get_rds_instance_details (rds env)) = Inr []"
    and s: "session_error env = None"
  obtain r ev where g: "get_rds_instance_details (rds env) = (r, ev)"
    by (cases "get_rds_instance_details (rds env)")
  with h have "r = Inr []" by simp
  then show "Print ''No RDS instances found. Exiting.'' \<in> set (snd (RDS_main env))"
    by (simp add: RDS_main_def s g)
next
  show "fst (ECS_main env) = Inr ()" by (simp add: ECS_main_def)
next
  assume h: "fst (get_ecs_report_data (ecs env) (cloudwatch env)) = Inr []"
  from ECS_main_no_fetch [OF h]
  show "\<forall>x \<in> set (snd (ECS_main env)). \<not> is_query x \<and> \<not> is_write x" by blast
next
  assume h: "fst (get_ecs_report_data (ecs env) (cloudwatch env)) = Inr []"
    and s: "session_error env = None"
  obtain r ev where g: "get_ecs_report_data (ecs env) (cloudwatch env) = (r, ev)"
    by (cases "get_ecs_report_data (ecs env) (cloudwatch env)")
  with h have "r = Inr []" by simp
  then show "Print ''No ECS services found. Exiting.'' \<in> set (snd (ECS_main env))"
    by (simp add: ECS_main_def s g)
qed

theorem empty_inventory_skips_witness:
  "fst (get_ec2_instance_details (ec2 empty_env) (cloudwatch empty_env)) = Inr [] \<and>
   fst (get_rds_instance_details (rds empty_env)) = Inr [] \<and>
   fst (get_ecs_report_data (ecs empty_env) (cloudwatch empty_env)) = Inr [] \<and>
   session_error empty_env = None \<and>
   fst (EC2_main empty_env) = Inr () \<and>
   filter (\<lambda>x. is_query x \<or> is_write x) (snd (EC2_main empty_env)) = [] \<and>
   Print ''No EC2 instances found. Exiting.'' \<in> set (snd (EC2_main empty_env)) \<and>
   fst (RDS_main empty_env) = Inr () \<and>
   filter (\<lambda>x. is_query x \<or> is_write x) (snd (RDS_main empty_env)) = [] \<and>
   Print ''No RDS instances found. Exiting.'' \<in> set (snd (RDS_main empty_env)) \<and>
   fst (ECS_main empty_env) = Inr () \<and>
   filter (\<lambda>x. is_query x \<or> is_write x) (snd (ECS_main empty_env)) = [] \<and>
   Print ''No ECS services found. Exiting.'' \<in> set (snd (ECS_main empty_env))"
proof -
  have h1: "fst (get_ec2_instance_details (ec2 empty_env) (cloudwatch empty_env)) = Inr []"
    by code_simp
  have h2: "fst (get_rds_instance_details (rds empty_env)) = Inr []"
    by code_simp
  have h3: "fst (get_ecs_report_data (ecs empty_env) (cloudwatch empty_env)) = Inr []"
    by code_simp
  have h4: "session_error empty_env = None"
    by (simp add: empty_env_def example_env_def)
  note t = empty_inventory_skips [of empty_env]
  from t h1 h4 have a: "fst (EC2_main empty_env) = Inr ()"
    "\<forall>x \<in> set (snd (EC2_main empty_env)). \<not> is_query x \<and> \<not> is_write x"
    "Print ''No EC2 instances found. Exiting.'' \<in> set (snd (EC2_main empty_env))"
    by blast+
  from t h2 h4 have b: "fst (RDS_main empty_env) = Inr ()"
    "\<forall>x \<in> set (snd (RDS_main empty_env)). \<not> is_query x \<and> \<not> is_write x"
    "Print ''No RDS instances found. Exiting.'' \<in> set (snd (RDS_main empty_env))"
    by blast+
  from t h3 h4 have c: "fst (ECS_main empty_env) = Inr ()"
    "\<forall>x \<in> set (snd (ECS_main empty_env)). \<not> is_query x \<and> \<not> is_write x"
    "Print ''No ECS services found. Exiting.'' \<in> set (snd (ECS_main empty_env))"
    by blast+
  from a(2) b(2) c(2) have f:
    "filter (\<lambda>x. is_query x \<or> is_write x) (snd (EC2_main empty_env)) = []"
    "filter (\<lambda>x. is_query x \<or> is_write x) (snd (RDS_main empty_env)) = []"
    "filter (\<lambda>x. is_query x \<or> is_write x) (snd (ECS_main empty_env)) = []"
    by (simp_all add: filter_empty_conv)
  show ?thesis
    by (intro conjI) (rule h1 h2 h3 h4 a(1) a(3) b(1) b(3) c(1) c(3) f)+
qed

text \<open>
  C9. When the inventory listing of the EC2 or of the RDS report raises, the report
  returns normally with no partial result: it has issued no metric query and written no
  file, and, when the session was created, it has printed the exception. The listing
  raises in particular when the first call of it does: \<^verbatim>\<open>describe_instance_status\<close> in
  the EC2 report, the paginator of \<^verbatim>\<open>describe_db_instances\<close> in the RDS report.
\<close>

theorem listing_failure_aborts:
  "(fst (get_ec2_instance_details (ec2 env) (cloudwatch env)) = Inl e \<longrightarrow>
      fst (EC2_main env) = Inr () \<and>
      (\<forall>x \<in> set (snd (EC2_main env)). \<not> is_query x \<and> \<not> is_write x) \<and>
      (session_error env = None \<longrightarrow>
         unexpected cross_mark e \<in> set (snd (EC2_main env)))) \<and>
   (fst (get_rds_instance_details (rds env)) = Inl e \<longrightarrow>
      fst (RDS_main env) = Inr () \<and>
      (\<forall>x \<in> set (snd (RDS_main env)). \<not> is_query x \<and> \<not> is_write x) \<and>
      (session_error env = None \<longrightarrow>
         unexpected garbled_cross_mark e \<in> set (snd (RDS_main env)))) \<and>
   (describe_instance_status (ec2 env) = Inl e \<longrightarrow>
      fst (get_ec2_instance_details (ec2 env) (cloudwatch env)) = Inl e) \<and>
   (failure (describe_db_instances (rds env)) = Some e \<longrightarrow>
      fst (get_rds_instance_details (rds env)) = Inl e)"
proof (intro conjI impI)
  show "fst (EC2_main env) = Inr ()" by (simp add: EC2_main_def)
next
  assume h: "fst (get_ec2_instance_details (ec2 env) (cloudwatch env)) = Inl e"
  from EC2_main_no_fetch [OF disjI1, OF h]
  show "\<forall>x \<in> set (snd (EC2_main env)). \<not> is_query x \<and> \<not> is_write x" by blast
next
  assume h: "fst (get_ec2_instance_details (ec2 env) (cloudwatch env)) = Inl e"
    and s: "session_error env = None"
  obtain r ev where g: "get_ec2_instance_details (ec2 env) (cloudwatch env) = (r, ev)"
    by (cases "get_ec2_instance_details (ec2 env) (cloudwatch env)")
  with h have "r = Inl e" by simp
  then show "unexpected cross_mark e \<in> set (snd (EC2_main env))"
    by (simp add: EC2_main_def s g)
next
  show "fst (RDS_main env) = Inr ()" by (simp add: RDS_main_def)
next
  assume h: "fst (get_rds_instance_details (rds env)) = Inl e"
  from RDS_main_no_fetch [OF disjI1, OF h]
  show "\<forall>x \<in> set (snd (RDS_main env)). \<not> is_query x \<and> \<not> is_write x" by blast
next
  assume h: "fst (get_rds_instance_details (rds env)) = Inl e"
    and s: "session_error env = None"
  obtain r ev where g: "get_rds_instance_details (rds env) = (r, ev)"
    by (cases "get_rds_instance_details (rds env)")
  with h have "r = Inl e" by simp
  then show "unexpected garbled_cross_mark e \<in> set (snd (RDS_main env))"
    by (simp add: RDS_main_def s g)
next
  assume "describe_instance_status (ec2 env) = Inl e"
  then show "fst (get_ec2_instance_details (ec2 env) (cloudwatch env)) = Inl e"
    by (simp add: get_ec2_instance_details_def)
next
  assume "failure (describe_db_instances (rds env)) = Some e"
  then show "fst (get_rds_instance_details (rds env)) = Inl e"
    by (simp add: get_rds_instance_details_def Let_def)
qed

theorem listing_failure_aborts_witness:
  "describe_instance_status (ec2 broken_env) = Inl ''AccessDenied'' \<and>
   failure (describe_db_instances (rds broken_env)) = Some ''AccessDenied'' \<and>
   session_error broken_env = None \<and>
   fst (EC2_main broken_env) = Inr () \<and>
   filter (\<lambda>x. is_query x \<or> is_write x) (snd (EC2_main broken_env)) = [] \<and>
   unexpected cross_mark ''AccessDenied'' \<in> set (snd (EC2_main broken_env)) \<and>
   fst (RDS_main broken_env) = Inr () \<and>
   filter (\<lambda>x. is_query x \<or> is_write x) (snd (RDS_main broken_env)) = [] \<and>
   unexpected garbled_cross_mark ''AccessDenied'' \<in> set (snd (RDS_main broken_env))"
proof -
  have h1: "describe_instance_status (ec2 broken_env) = Inl ''AccessDenied''"
    by (simp add: broken_env_def example_env_def example_ec2_def)
  have h2: "failure (describe_db_instances (rds broken_env)) = Some ''AccessDenied''"
    by (simp add: broken_env_def example_env_def)
  have h3: "session_error broken_env = None"
    by (simp add: broken_env_def example_env_def)
  note t = listing_failure_aborts [of broken_env "''AccessDenied''"]
  from t h1 h3 have a: "fst (EC2_main broken_env) = Inr ()"
    "\<forall>x \<in> set (snd (EC2_main broken_env)). \<not> is_query x \<and> \<not> is_write x"
    "unexpected cross_mark ''AccessDenied'' \<in> set (snd (EC2_main broken_env))"
    by blast+
  from t h2 h3 have b: "fst (RDS_main broken_env) = Inr ()"
    "\<forall>x \<in> set (snd (RDS_main broken_env)). \<not> is_query x \<and> \<not> is_write x"
    "unexpected garbled_cross_mark ''AccessDenied'' \<in> set (snd (RDS_main broken_env))"
    by blast+
  from a(2) b(2) have f:
    "filter (\<lambda>x. is_query x \<or> is_write x) (snd (EC2_main broken_env)) = []"
    "filter (\<lambda>x. is_query x \<or> is_write x) (snd (RDS_main broken_env)) = []"
    by (simp_all add: filter_empty_conv)
  show ?thesis
    by (intro conjI) (rule h1 h2 h3 a(1) a(3) b(1) b(3) f)+
qed

text \<open>
  C10. The EC2 inventory asks \<^verbatim>\<open>describe_instances\<close> for the instances whose state is
  running or stopped, and holds one row for each instance of the answer, in the order of
  the answer; it filters nothing itself. So, against a service that answers the state
  filter as documented, the rows of the inventory are, in order, the account's instances
  whose state is running or stopped, and every row has one of these two states.
\<close>

theorem inventory_running_or_stopped:
  assumes "fst (get_ec2_instance_details c cw) = Inr rows"
  shows "state_filter =
           [\<lparr>FilterName = ''instance-state-name'',
             FilterValues = [''running'', ''stopped'']\<rparr>] \<and>
         map (\<lambda>d. (map_of d ''Instance ID'', map_of d ''Instance state'')) rows =
           map (\<lambda>i. (Some (cell_of (InstanceId i)), Some (cell_of (StateName i))))
             (concat (concat (pages (describe_instances c state_filter)))) \<and>
         (describe_instances c = service_describe_instances fleet \<longrightarrow>
            map (\<lambda>d. (map_of d ''Instance ID'', map_of d ''Instance state'')) rows =
              map (\<lambda>i. (Some (cell_of (InstanceId i)), Some (cell_of (StateName i))))
                (filter (\<lambda>i. StateName i = Some ''running'' \<or> StateName i = Some ''stopped'')
                   (concat (concat fleet))) \<and>
            (\<forall>d \<in> set rows. map_of d ''Instance state'' = Some (CStr ''running'') \<or>
                             map_of d ''Instance state'' = Some (CStr ''stopped'')))"
proof -
  let ?P = "\<lambda>i. StateName i = Some ''running'' \<or> StateName i = Some ''stopped''"
  let ?proj = "\<lambda>d. (map_of d ''Instance ID'', map_of d ''Instance state'')"
  let ?of = "\<lambda>i. (Some (cell_of (InstanceId i)), Some (cell_of (StateName i)))"
  have sf: "state_filter =
      [\<lparr>FilterName = ''instance-state-name'', FilterValues = [''running'', ''stopped'']\<rparr>]"
    by (simp add: state_filter_def)
  from get_ec2_instance_details_rows [OF assms] obtain statuses addresses where
    "details_of_instances cw (status_map statuses) (ip_map addresses)
       (concat (concat (pages (describe_instances c state_filter)))) = Inr rows"
    by blast
  from details_of_instances_rows [OF this]
  have eq0: "map ?proj rows =
      map ?of (concat (concat (pages (describe_instances c state_filter))))"
    by simp
  have svc: "map ?proj rows = map ?of (filter ?P (concat (concat fleet))) \<and>
      (\<forall>d \<in> set rows. map_of d ''Instance state'' = Some (CStr ''running'') \<or>
                       map_of d ''Instance state'' = Some (CStr ''stopped''))"
    if s: "describe_instances c = service_describe_instances fleet"
  proof -
    have mf: "matches_filters state_filter = ?P"
      by (rule ext) (rule matches_state_filter)
    have flat: "concat (concat (pages (describe_instances c state_filter))) =
                filter ?P (concat (concat fleet))"
      by (simp add: s service_describe_instances_def concat_concat_filter mf)
    from eq0 have eq: "map ?proj rows = map ?of (filter ?P (concat (concat fleet)))"
      by (simp add: flat)
    have "map_of d ''Instance state'' = Some (CStr ''running'') \<or>
          map_of d ''Instance state'' = Some (CStr ''stopped'')" if "d \<in> set rows" for d
    proof -
      from that have "?proj d \<in> set (map ?proj rows)" by simp
      with eq have "?proj d \<in> set (map ?of (filter ?P (concat (concat fleet))))" by simp
      then have "\<exists>i \<in> set (filter ?P (concat (concat fleet))). ?proj d = ?of i"
        by (simp only: set_map image_iff)
      then obtain i where i: "i \<in> set (filter ?P (concat (concat fleet)))"
        and e: "?proj d = ?of i" by blast
      from i have P: "?P i" by simp
      from e have "map_of d ''Instance state'' = Some (cell_of (StateName i))" by simp
      with P show ?thesis by (auto simp: cell_of_def)
    qed
    with eq show ?thesis by blast
  qed
  show ?thesis
  proof (intro conjI impI)
    show "state_filter =
      [\<lparr>FilterName = ''instance-state-name'', FilterValues = [''running'', ''stopped'']\<rparr>]"
      by (rule sf)
    show "map ?proj rows =
      map ?of (concat (concat (pages (describe_instances c state_filter))))"
      by (rule eq0)
    assume s: "describe_instances c = service_describe_instances fleet"
    show "map ?proj rows = map ?of (filter ?P (concat (concat fleet)))"
      by (rule svc [OF s, THEN conjunct1])
    show "\<forall>d \<in> set rows. map_of d ''Instance state'' = Some (CStr ''running'') \<or>
                          map_of d ''Instance state'' = Some (CStr ''stopped'')"
      by (rule svc [OF s, THEN conjunct2])
  qed
qed

theorem inventory_running_or_stopped_witness:
  "describe_instances example_ec2 = service_describe_instances example_fleet \<and>
   (\<exists>rows. fst (get_ec2_instance_details example_ec2 failing_cloudwatch) = Inr rows \<and>
      map (\<lambda>d. (map_of d ''Instance ID'', map_of d ''Instance state'')) rows =
        [(Some (CStr ''i-1''), Some (CStr ''running'')),
         (Some (CStr ''i-3''), Some (CStr ''stopped''))])"
proof -
  have h1: "describe_instances example_ec2 = service_describe_instances example_fleet"
    by (simp add: example_ec2_def)
  from example_inventory obtain rows where
    h2: "fst (get_ec2_instance_details example_ec2 failing_cloudwatch) = Inr rows"
    by blast
  have v: "map (\<lambda>i. (Some (cell_of (InstanceId i)), Some (cell_of (StateName i))))
             (filter (\<lambda>i. StateName i = Some ''running'' \<or> StateName i = Some ''stopped'')
                (concat (concat example_fleet))) =
           [(Some (CStr ''i-1''), Some (CStr ''running'')),
            (Some (CStr ''i-3''), Some (CStr ''stopped''))]"
    by code_simp
  note t = inventory_running_or_stopped [OF h2, of example_fleet]
  from t [THEN conjunct2, THEN conjunct2, THEN mp, OF h1, THEN conjunct1] v
  have "map (\<lambda>d. (map_of d ''Instance ID'', map_of d ''Instance state'')) rows =
        [(Some (CStr ''i-1''), Some (CStr ''running'')),
         (Some (CStr ''i-3''), Some (CStr ''stopped''))]"
    by simp
  then show ?thesis
  proof (intro conjI exI)
    show "describe_instances example_ec2 = service_describe_instances example_fleet"
      by (rule h1)
    show "fst (get_ec2_instance_details example_ec2 failing_cloudwatch) = Inr rows"
      by (rule h2)
  qed
qed

text \<open>
  C8. The entry point runs the EC2, the RDS and the ECS report in this order, whatever
  each of them does: the events of the three reports all occur in its trace, in order.
  An exception that a report raises is caught and printed, the reports after it still
  run, and the entry point returns normally after its closing message.
\<close>

theorem reports_run_independently:
  "fst (main_with r1 r2 r3) = Inr () \<and>
   (\<exists>a b c d. snd (main_with r1 r2 r3) = a @ snd r1 @ b @ snd r2 @ c @ snd r3 @ d) \<and>
   (fst r1 = Inl e \<longrightarrow>
      Print (cross_mark @ '' Error generating EC2 report: '' @ e) \<in> set (snd (main_with r1 r2 r3))) \<and>
   (fst r2 = Inl e \<longrightarrow>
      Print (cross_mark @ '' Error generating RDS report: '' @ e) \<in> set (snd (main_with r1 r2 r3))) \<and>
   (fst r3 = Inl e \<longrightarrow>
      Print (cross_mark @ '' Error generating ECS report: '' @ e) \<in> set (snd (main_with r1 r2 r3))) \<and>
   last (snd (main_with r1 r2 r3)) =
     Print ([CHR 0x0A] @ ''--- All Reports Generated Successfully ---'') \<and>
   main env = main_with (EC2_main env) (RDS_main env) (ECS_main env)"
proof -
  define err where "err = (\<lambda>name (r :: (exn + unit) \<times> event list).
     case fst r of
       Inl e \<Rightarrow> [Print (cross_mark @ '' Error generating '' @ name @ '' report: '' @ e)]
                 | Inr u \<Rightarrow> [])"
  define gen where "gen = (\<lambda>name. Print ([CHR 0x0A] @ ''--- Generating '' @ name @ '' Report ---''))"
  have step: "report_step name r = gen name # snd r @ err name r" for name r
    by (simp add: report_step_def gen_def err_def)
  have tr: "snd (main_with r1 r2 r3) =
      [Print ''--- Starting AWS Report Generation ---'', gen ''EC2''] @ snd r1 @
      (err ''EC2'' r1 @ [gen ''RDS'']) @ snd r2 @
      (err ''RDS'' r2 @ [gen ''ECS'']) @ snd r3 @
      (err ''ECS'' r3 @ [Print ([CHR 0x0A] @ ''--- All Reports Generated Successfully ---'')])"
    by (simp add: main_with_def step)
  have a: "fst (main_with r1 r2 r3) = Inr ()" by (simp add: main_with_def)
  have b: "\<exists>a b c d. snd (main_with r1 r2 r3) = a @ snd r1 @ b @ snd r2 @ c @ snd r3 @ d"
    using tr by blast
  have c: "fst r1 = Inl e \<longrightarrow>
      Print (cross_mark @ '' Error generating EC2 report: '' @ e) \<in> set (snd (main_with r1 r2 r3))"
    by (simp add: tr err_def)
  have d: "fst r2 = Inl e \<longrightarrow>
      Print (cross_mark @ '' Error generating RDS report: '' @ e) \<in> set (snd (main_with r1 r2 r3))"
    by (simp add: tr err_def)
  have f: "fst r3 = Inl e \<longrightarrow>
      Print (cross_mark @ '' Error generating ECS report: '' @ e) \<in> set (snd (main_with r1 r2 r3))"
    by (simp add: tr err_def)
  have g: "last (snd (main_with r1 r2 r3)) =
     Print ([CHR 0x0A] @ ''--- All Reports Generated Successfully ---'')"
    by (simp add: tr)
  have h: "main env = main_with (EC2_main env) (RDS_main env) (ECS_main env)"
    by (simp add: main_def)
  show ?thesis
    by (rule conjI [OF a conjI [OF b conjI [OF c conjI [OF d conjI [OF f conjI [OF g h]]]]]])
qed

theorem reports_run_independently_witness:
  "fst (main_with (Inl ''boom'', [Print ''a'']) (Inr (), [Print ''b'']) (Inl ''bang'', [])) =
     Inr () \<and>
   Print (cross_mark @ '' Error generating EC2 report: boom'')
     \<in> set (snd (main_with (Inl ''boom'', [Print ''a'']) (Inr (), [Print ''b''])
                   (Inl ''bang'', []))) \<and>
   Print (cross_mark @ '' Error generating ECS report: bang'')
     \<in> set (snd (main_with (Inl ''boom'', [Print ''a'']) (Inr (), [Print ''b''])
                   (Inl ''bang'', []))) \<and>
   Print ''b''
     \<in> set (snd (main_with (Inl ''boom'', [Print ''a'']) (Inr (), [Print ''b''])
                   (Inl ''bang'', [])))"
proof -
  note t1 = reports_run_independently [where ?r1.0 = "(Inl ''boom'', [Print ''a''])"
      and ?r2.0 = "(Inr (), [Print ''b''])" and ?r3.0 = "(Inl ''bang'', [])"
      and e = "''boom''" and env = example_env]
  note t2 = reports_run_independently [where ?r1.0 = "(Inl ''boom'', [Print ''a''])"
      and ?r2.0 = "(Inr (), [Print ''b''])" and ?r3.0 = "(Inl ''bang'', [])"
      and e = "''bang''" and env = example_env]
  note a = t1 [THEN conjunct1]
  have b: "Print (cross_mark @ '' Error generating EC2 report: boom'')
     \<in> set (snd (main_with (Inl ''boom'', [Print ''a'']) (Inr (), [Print ''b''])
                   (Inl ''bang'', [])))"
    using t1 [THEN conjunct2, THEN conjunct2, THEN conjunct1] by simp
  have c: "Print (cross_mark @ '' Error generating ECS report: bang'')
     \<in> set (snd (main_with (Inl ''boom'', [Print ''a'']) (Inr (), [Print ''b''])
                   (Inl ''bang'', [])))"
    using t2 [THEN conjunct2, THEN conjunct2, THEN conjunct2, THEN conjunct2, THEN conjunct1]
    by simp
  from t1 [THEN conjunct2, THEN conjunct1] obtain x y z w where
    "snd (main_with (Inl ''boom'', [Print ''a'']) (Inr (), [Print ''b'']) (Inl ''bang'', [])) =
       x @ snd (Inl ''boom'' :: exn + unit, [Print ''a'']) @ y @
       snd (Inr () :: exn + unit, [Print ''b'']) @ z @
       snd (Inl ''bang'' :: exn + unit, [] :: event list) @ w"
    by blast
  then have d: "Print ''b''
     \<in> set (snd (main_with (Inl ''boom'', [Print ''a'']) (Inr (), [Print ''b''])
                   (Inl ''bang'', [])))"
    by simp
  show ?thesis by (rule conjI [OF a conjI [OF b conjI [OF c d]]])
qed


end
